theory Spec2Isabelle
  imports Main "HOL-Library.Word" "HOL-Library.Sublist"
begin

section \<open>The MQTT interface of dagd (mqtt.c)\<close>

text \<open>
  A shallow embedding of \<^verbatim>\<open>src/mqtt.c\<close>: the session variables, the notification
  registry (\<^verbatim>\<open>notify\<close>, \<^verbatim>\<open>mqtt_subscribe\<close>), the status publisher
  (\<^verbatim>\<open>mqtt_status\<close>) and the reception path (\<^verbatim>\<open>process_epoch\<close>, \<^verbatim>\<open>message\<close>).
  The file's global and static variables become one record that every function takes and
  returns. What the file does to the outside world (calling a subscriber, publishing,
  writing a diagnostic line) is appended to a log kept in that record.

  What the embedding takes for granted:
  \<^item> \<^verbatim>\<open>bool\<close> is the \<^verbatim>\<open>_Bool\<close> of \<^verbatim>\<open>stdbool.h\<close>, \<^verbatim>\<open>unsigned\<close> has 32 bits, and
    \<^verbatim>\<open>time_t\<close> is an integer;
  \<^item> the allocators of \<^verbatim>\<open>linzhi/alloc.h\<close> return memory, so \<^verbatim>\<open>alloc_size\<close> and
    \<^verbatim>\<open>realloc_type_n\<close> do not show;
  \<^item> a subscriber's function returns, and neither writes the variables of this file nor
    calls back into it;
  \<^item> the C library runs in the C locale, and \<^verbatim>\<open>errno\<close> is not kept.
  Connection set-up and polling (\<^verbatim>\<open>setup_mqtt\<close>, \<^verbatim>\<open>connected\<close>, \<^verbatim>\<open>disconnected\<close>,
  \<^verbatim>\<open>mqtt_poll\<close>, \<^verbatim>\<open>mqtt_fd\<close>, \<^verbatim>\<open>mqtt_init\<close>) are calls into the mosquitto library and
  are not embedded.
\<close>

subsection \<open>Constants of the file\<close>

definition HOLD_STATE :: string where
  "HOLD_STATE = ''epoch_upload ''"

definition MQTT_TOPIC_EPOCH :: string where
  "MQTT_TOPIC_EPOCH = ''/mine/epoch''"

definition MQTT_TOPIC_CACHE :: string where
  "MQTT_TOPIC_CACHE = ''/mine/dag-cache''"

definition MQTT_TOPIC_SHUTDOWN :: string where
  "MQTT_TOPIC_SHUTDOWN = ''/sys/shutdown''"

definition MQTT_TOPIC_MINED_STATE :: string where
  "MQTT_TOPIC_MINED_STATE = ''/mine/mined-state''"

text \<open>\<^verbatim>\<open>enum mqtt_qos\<close>; only \<^verbatim>\<open>qos_ack\<close> is used by the functions embedded here.\<close>

definition qos_ack :: nat where
  "qos_ack = 1"

text \<open>\<^verbatim>\<open>MOSQ_ERR_SUCCESS\<close> of the mosquitto library's header.\<close>

definition MOSQ_ERR_SUCCESS :: int where
  "MOSQ_ERR_SUCCESS = 0"

subsection \<open>What the file takes from outside\<close>

text \<open>
  \<^verbatim>\<open>enum mqtt_notify_type\<close> is declared in \<^verbatim>\<open>mqtt.h\<close>; the three enumerators are the
  ones \<^verbatim>\<open>message\<close> uses.
\<close>

datatype mqtt_notify_type = mqtt_notify_epoch | mqtt_notify_mined_state | mqtt_notify_shutdown

text \<open>
  The width of \<^verbatim>\<open>unsigned long\<close> decides where \<^verbatim>\<open>strtoul\<close> saturates. Both
  common Linux data models are covered; \<^verbatim>\<open>unsigned\<close> is 32 bits in either.
\<close>

datatype data_model = ILP32 | LP64

fun ULONG_MAX :: "data_model \<Rightarrow> nat" where
  "ULONG_MAX ILP32 = 4294967295"
| "ULONG_MAX LP64 = 18446744073709551615"

text \<open>
  \<^verbatim>\<open>dagalgo_code\<close> and \<^verbatim>\<open>da_ethash\<close> come from \<^verbatim>\<open>linzhi/dagalgo.h\<close>, which is not
  part of the sources: the lookup and the constant are parameters of the embedding.
\<close>

record env =
  abi :: data_model
  dagalgo_code :: "string \<Rightarrow> int"
  da_ethash :: int

subsection \<open>State\<close>

text \<open>The exported variables \<^verbatim>\<open>shutdown_pending\<close>, \<^verbatim>\<open>hold\<close>, \<^verbatim>\<open>curr_algo\<close>,
  \<^verbatim>\<open>curr_epoch\<close> and \<^verbatim>\<open>curr_block\<close>.\<close>

record session =
  shutdown_pending :: bool
  hold :: bool
  curr_algo :: int
  curr_epoch :: "16 word"
  curr_block :: "64 word"

text \<open>\<^verbatim>\<open>struct subscription\<close>. A function pointer and a \<^verbatim>\<open>void *\<close> are opaque
  values, numbered.\<close>

record subscription =
  type :: mqtt_notify_type
  fn :: nat
  user :: nat

text \<open>
  A subscriber is code outside the file. Calling \<^verbatim>\<open>s->fn(s->user)\<close> is recorded as
  an event that holds the function, its argument and the session variables as they are
  at the moment of the call, which is what the callee can read. The embedding assumes
  that a callee does not write the variables of this file.
\<close>

record callback =
  cb_fn :: nat
  cb_user :: nat
  cb_seen :: session

text \<open>The arguments of one \<^verbatim>\<open>mosquitto_publish\<close> call.\<close>

record publication =
  pub_handle :: nat
  pub_topic :: string
  pub_len :: nat
  pub_payload :: string
  pub_qos :: nat
  pub_retain :: bool

text \<open>The diagnostic lines: every \<^verbatim>\<open>fprintf(stderr, ...)\<close> of the embedded functions,
  and the \<^verbatim>\<open>debug\<close> call of \<^verbatim>\<open>message\<close> (begin or end of holding), with their
  arguments.\<close>

datatype diag =
    Publish_failed string int
  | Algo_name_missing
  | Unknown_algo string
  | Unrecognized_topic string
  | Bad_number string
  | Debug_holding bool

text \<open>
  \<^verbatim>\<open>sub\<close> holds the array \<^verbatim>\<open>sub\<close> with its length \<^verbatim>\<open>subs\<close>; \<^verbatim>\<open>last_t\<close> is the
  static variable \<^verbatim>\<open>last\<close> of \<^verbatim>\<open>mqtt_status\<close>.
\<close>

record mqtt_state =
  vars :: session
  sub :: "subscription list"
  last_t :: int
  calls :: "callback list"
  published :: "publication list"
  stderr :: "diag list"

definition init_session :: session where
  "init_session = \<lparr>shutdown_pending = False, hold = False, curr_algo = - 1,
     curr_epoch = 0, curr_block = 0\<rparr>"

definition init_state :: mqtt_state where
  "init_state = \<lparr>vars = init_session, sub = [], last_t = 0, calls = [], published = [],
     stderr = []\<rparr>"

definition fprintf_stderr :: "diag \<Rightarrow> mqtt_state \<Rightarrow> mqtt_state" where
  "fprintf_stderr d s = s\<lparr>stderr := stderr s @ [d]\<rparr>"

text \<open>\<^verbatim>\<open>debug\<close> comes from \<^verbatim>\<open>debug.h\<close>, which is not part of the sources. The call is
  recorded on the same log, whatever the level.\<close>

definition debug :: "nat \<Rightarrow> diag \<Rightarrow> mqtt_state \<Rightarrow> mqtt_state" where
  "debug level d s = fprintf_stderr d s"

text \<open>\<^verbatim>\<open>strlen\<close> of a C string given by its bytes before the terminating zero.\<close>

definition strlen :: "string \<Rightarrow> nat" where
  "strlen str = length str"

subsection \<open>Notifications\<close>

definition invoke :: "subscription \<Rightarrow> mqtt_state \<Rightarrow> mqtt_state" where
  "invoke r s = s\<lparr>calls := calls s @ [\<lparr>cb_fn = fn r, cb_user = user r, cb_seen = vars s\<rparr>]\<rparr>"

text \<open>The loop of \<^verbatim>\<open>notify\<close> over \<^verbatim>\<open>sub .. sub + subs\<close>.\<close>

fun notify_loop :: "mqtt_notify_type \<Rightarrow> subscription list \<Rightarrow> mqtt_state \<Rightarrow> mqtt_state" where
  "notify_loop t [] s = s"
| "notify_loop t (r # rs) s = notify_loop t rs (if type r = t then invoke r s else s)"

definition notify :: "mqtt_notify_type \<Rightarrow> mqtt_state \<Rightarrow> mqtt_state" where
  "notify t s = notify_loop t (sub s) s"

definition mqtt_subscribe :: "mqtt_notify_type \<Rightarrow> nat \<Rightarrow> nat \<Rightarrow> mqtt_state \<Rightarrow> mqtt_state" where
  "mqtt_subscribe t f u s = s\<lparr>sub := sub s @ [\<lparr>type = t, fn = f, user = u\<rparr>]\<rparr>"

subsection \<open>MQTT transmission\<close>

text \<open>
  \<^verbatim>\<open>mosquitto_publish\<close> followed by the report of a failure. The result \<open>res\<close> of the
  library call is an input.
\<close>

definition publish_and_report :: "int \<Rightarrow> nat \<Rightarrow> string \<Rightarrow> mqtt_state \<Rightarrow> mqtt_state" where
  "publish_and_report res mqtt str s =
     (let s1 = s\<lparr>published := published s @
            [\<lparr>pub_handle = mqtt, pub_topic = MQTT_TOPIC_CACHE, pub_len = strlen str,
              pub_payload = str, pub_qos = qos_ack, pub_retain = True\<rparr>]\<rparr>
      in if res \<noteq> MOSQ_ERR_SUCCESS then fprintf_stderr (Publish_failed MQTT_TOPIC_CACHE res) s1
         else s1)"

text \<open>\<^verbatim>\<open>mqtt_status\<close>; \<open>t\<close> is what \<^verbatim>\<open>time(&t)\<close> stores.\<close>

definition mqtt_status :: "int \<Rightarrow> int \<Rightarrow> nat \<Rightarrow> string \<Rightarrow> bool \<Rightarrow> mqtt_state \<Rightarrow> mqtt_state" where
  "mqtt_status t res mqtt str flush s =
     (if t = last_t s \<and> \<not> flush then s
      else publish_and_report res mqtt str (s\<lparr>last_t := t\<rparr>))"

subsection \<open>The C library functions the reception path calls\<close>

text \<open>
  A payload is a list of bytes. \<^verbatim>\<open>message\<close> copies it and appends a zero byte, and
  from there on reads the copy as a C string: the bytes before the first zero byte.
\<close>

definition cstr :: "string \<Rightarrow> string" where
  "cstr bytes = takeWhile (\<lambda>c. c \<noteq> CHR 0x00) bytes"

text \<open>\<open>deref p\<close> is \<^verbatim>\<open>*p\<close> for a pointer into a C string: the terminating zero byte
  when nothing is left.\<close>

fun deref :: "string \<Rightarrow> char" where
  "deref [] = CHR 0x00"
| "deref (c # cs) = c"

text \<open>\<^verbatim>\<open>strncmp\<close>: the difference of the first two bytes that differ among the first
  \<open>n\<close>, zero when there is none.\<close>

fun strncmp :: "string \<Rightarrow> string \<Rightarrow> nat \<Rightarrow> int" where
  "strncmp a b 0 = 0"
| "strncmp a b (Suc n) =
     (if deref a \<noteq> deref b then int (of_char (deref a)) - int (of_char (deref b))
      else if deref a = CHR 0x00 then 0
      else strncmp (tl a) (tl b) n)"

text \<open>\<^verbatim>\<open>strchr\<close> for a non-zero byte: the rest of the string from the first occurrence
  on, \<open>None\<close> for the null pointer.\<close>

fun strchr :: "string \<Rightarrow> char \<Rightarrow> string option" where
  "strchr [] c = None"
| "strchr (x # xs) c = (if x = c then Some (x # xs) else strchr xs c)"

text \<open>\<^verbatim>\<open>isspace\<close> in the C locale.\<close>

definition isspace :: "char \<Rightarrow> bool" where
  "isspace c = (c = CHR '' '' \<or> (9 \<le> (of_char c :: nat) \<and> (of_char c :: nat) \<le> 13))"

text \<open>The value of a byte as a digit, in a base up to 36.\<close>

definition digit_val :: "char \<Rightarrow> nat option" where
  "digit_val c =
     (let k = (of_char c :: nat) in
      if 48 \<le> k \<and> k \<le> 57 then Some (k - 48)
      else if 97 \<le> k \<and> k \<le> 122 then Some (k - 87)
      else if 65 \<le> k \<and> k \<le> 90 then Some (k - 55)
      else None)"

definition digit_in :: "nat \<Rightarrow> char \<Rightarrow> nat option" where
  "digit_in base c =
     (case digit_val c of
        None \<Rightarrow> None
      | Some d \<Rightarrow> if d < base then Some d else None)"

fun scan_digits :: "nat \<Rightarrow> nat \<Rightarrow> string \<Rightarrow> nat \<times> string" where
  "scan_digits base acc [] = (acc, [])"
| "scan_digits base acc (c # cs) =
     (case digit_in base c of
        None \<Rightarrow> (acc, c # cs)
      | Some d \<Rightarrow> scan_digits base (acc * base + d) cs)"

text \<open>An optional sign: whether it is a minus, and what follows it.\<close>

fun scan_sign :: "string \<Rightarrow> bool \<times> string" where
  "scan_sign [] = (False, [])"
| "scan_sign (c # cs) =
     (if c = CHR ''-'' then (True, cs)
      else if c = CHR ''+'' then (False, cs)
      else (False, c # cs))"

text \<open>Base 0: \<^verbatim>\<open>0x\<close> or \<^verbatim>\<open>0X\<close> before a hexadecimal digit selects base 16 and is
  skipped, any other leading \<^verbatim>\<open>0\<close> selects base 8, anything else base 10.\<close>

fun scan_base :: "string \<Rightarrow> nat \<times> string" where
  "scan_base (z # x # h # cs) =
     (if z = CHR ''0'' \<and> (x = CHR ''x'' \<or> x = CHR ''X'') \<and> digit_in 16 h \<noteq> None
      then (16, h # cs)
      else if z = CHR ''0'' then (8, z # x # h # cs)
      else (10, z # x # h # cs))"
| "scan_base str = (if deref str = CHR ''0'' then (8, str) else (10, str))"

text \<open>
  \<^verbatim>\<open>strtoul(nptr, &end, 0)\<close> of ISO C: the converted value and the string \<^verbatim>\<open>end\<close>
  points to. White space is skipped, a sign is read, the base is chosen, and the digits
  of that base are read. Without a digit there is no conversion: the value is 0 and
  \<^verbatim>\<open>end\<close> is \<^verbatim>\<open>nptr\<close>. A value beyond \<^verbatim>\<open>ULONG_MAX\<close> gives \<^verbatim>\<open>ULONG_MAX\<close>; a
  minus sign negates in \<^verbatim>\<open>unsigned long\<close>.
\<close>

definition strtoul :: "nat \<Rightarrow> string \<Rightarrow> nat \<times> string" where
  "strtoul ulong_max nptr =
     (let (neg, s2) = scan_sign (dropWhile isspace nptr);
          (base, s3) = scan_base s2
      in if digit_in base (deref s3) = None then (0, nptr)
         else
           (let (acc, rest) = scan_digits base 0 s3
            in (if ulong_max < acc then ulong_max
                else if neg then (ulong_max + 1 - acc) mod (ulong_max + 1)
                else acc, rest)))"

subsection \<open>MQTT reception\<close>

text \<open>
  \<^verbatim>\<open>process_epoch\<close>. \<open>names\<close> is \<open>None\<close> for the null pointer. The comparison
  \<^verbatim>\<open>n == curr_epoch\<close> is made in \<^verbatim>\<open>unsigned\<close>, and the assignment
  \<^verbatim>\<open>curr_epoch = n\<close> keeps the low 16 bits.
\<close>

definition process_epoch :: "env \<Rightarrow> 32 word \<Rightarrow> string option \<Rightarrow> mqtt_state \<Rightarrow> mqtt_state" where
  "process_epoch e n names s =
     (case (case names of
              Some nm \<Rightarrow>
                (case strchr nm (CHR '' '') of
                   None \<Rightarrow> Inl Algo_name_missing
                 | Some next \<Rightarrow>
                     (let algo = dagalgo_code e (tl next)
                      in if algo < 0 then Inl (Unknown_algo (tl next)) else Inr algo))
            | None \<Rightarrow> Inr (da_ethash e)) of
        Inl d \<Rightarrow> fprintf_stderr d s
      | Inr algo \<Rightarrow>
          if algo = curr_algo (vars s) \<and> n = ucast (curr_epoch (vars s)) then s
          else notify mqtt_notify_epoch
                 (s\<lparr>vars := (vars s)\<lparr>curr_algo := algo, curr_epoch := ucast n\<rparr>\<rparr>))"

text \<open>The chain of \<^verbatim>\<open>strcmp\<close> on the topic at the head of \<^verbatim>\<open>message\<close>.\<close>

definition topic_type :: "string \<Rightarrow> mqtt_notify_type option" where
  "topic_type topic =
     (if topic = MQTT_TOPIC_EPOCH then Some mqtt_notify_epoch
      else if topic = MQTT_TOPIC_MINED_STATE then Some mqtt_notify_mined_state
      else if topic = MQTT_TOPIC_SHUTDOWN then Some mqtt_notify_shutdown
      else None)"

text \<open>
  \<^verbatim>\<open>message\<close>. The result is \<open>None\<close> where the C function calls \<^verbatim>\<open>abort\<close>.
\<close>

definition message :: "env \<Rightarrow> string \<Rightarrow> string \<Rightarrow> mqtt_state \<Rightarrow> mqtt_state option" where
  "message e topic payload s =
     (case topic_type topic of
        None \<Rightarrow> Some (fprintf_stderr (Unrecognized_topic topic) s)
      | Some ty \<Rightarrow>
          (let buf = cstr payload in
           if ty = mqtt_notify_mined_state then
             (let next_hold = (strncmp HOLD_STATE buf (strlen HOLD_STATE) = 0);
                  s1 = (if hold (vars s) \<noteq> next_hold
                        then debug 2 (Debug_holding next_hold) s else s)
              in Some (notify mqtt_notify_mined_state
                         (s1\<lparr>vars := (vars s1)\<lparr>hold := next_hold\<rparr>\<rparr>)))
           else
             (let (v, end) = strtoul (ULONG_MAX (abi e)) buf;
                  n = (of_nat v :: 32 word)
              in if deref end \<noteq> CHR 0x00 \<and> deref end \<noteq> CHR '' ''
                 then Some (fprintf_stderr (Bad_number buf) s)
                 else
                   (case ty of
                      mqtt_notify_epoch \<Rightarrow>
                        (if deref end \<noteq> CHR 0x00
                         then Some (process_epoch e n (Some (tl end)) s)
                         else Some (process_epoch e n None s))
                    | mqtt_notify_shutdown \<Rightarrow>
                        Some (notify mqtt_notify_shutdown
                                (s\<lparr>vars := (vars s)\<lparr>shutdown_pending := (n \<noteq> 0)\<rparr>\<rparr>))
                    | mqtt_notify_mined_state \<Rightarrow> None))))"

subsection \<open>Runs of the interface\<close>

text \<open>
  What the application and the transport can do to the state: deliver a message (topic
  and payload) to \<^verbatim>\<open>message\<close>, call \<^verbatim>\<open>mqtt_subscribe\<close>, call \<^verbatim>\<open>mqtt_status\<close> (at
  a time \<open>t\<close>, with \<^verbatim>\<open>mosquitto_publish\<close> returning \<open>res\<close>).
\<close>

datatype op =
    Message string string
  | Subscribe mqtt_notify_type nat nat
  | Status int int nat string bool

fun step :: "env \<Rightarrow> op \<Rightarrow> mqtt_state \<Rightarrow> mqtt_state option" where
  "step e (Message topic payload) s = message e topic payload s"
| "step e (Subscribe t f u) s = Some (mqtt_subscribe t f u s)"
| "step e (Status t res mqtt str flush) s = Some (mqtt_status t res mqtt str flush s)"

fun run :: "env \<Rightarrow> op list \<Rightarrow> mqtt_state \<Rightarrow> mqtt_state option" where
  "run e [] s = Some s"
| "run e (x # xs) s = (case step e x s of None \<Rightarrow> None | Some s' \<Rightarrow> run e xs s')"

text \<open>The calls a dispatch of kind \<open>t\<close> makes over the registrations \<open>rs\<close> while the
  session variables are \<open>v\<close>: one per registration of that kind, in the order of \<open>rs\<close>.\<close>

definition callbacks_of :: "mqtt_notify_type \<Rightarrow> subscription list \<Rightarrow> session \<Rightarrow> callback list" where
  "callbacks_of t rs v =
     map (\<lambda>r. \<lparr>cb_fn = fn r, cb_user = user r, cb_seen = v\<rparr>) (filter (\<lambda>r. type r = t) rs)"

text \<open>A sequence of \<^verbatim>\<open>mqtt_subscribe\<close> calls, one per entry.\<close>

fun subscribe_all :: "subscription list \<Rightarrow> mqtt_state \<Rightarrow> mqtt_state" where
  "subscribe_all [] s = s"
| "subscribe_all (r # rs) s = subscribe_all rs (mqtt_subscribe (type r) (fn r) (user r) s)"

text \<open>One call of \<^verbatim>\<open>mqtt_status\<close>: the time, the result of the publish, and the three
  arguments.\<close>

record status_call =
  at_time :: int
  pub_res :: int
  handle :: nat
  text_arg :: string
  flush_arg :: bool

definition status_step :: "status_call \<Rightarrow> mqtt_state \<Rightarrow> mqtt_state" where
  "status_step c s = mqtt_status (at_time c) (pub_res c) (handle c) (text_arg c) (flush_arg c) s"

fun status_run :: "status_call list \<Rightarrow> mqtt_state \<Rightarrow> mqtt_state" where
  "status_run [] s = s"
| "status_run (c # cs) s = status_run cs (status_step c s)"

text \<open>The number of \<^verbatim>\<open>mosquitto_publish\<close> calls made, in a run of \<^verbatim>\<open>mqtt_status\<close>
  calls, by the calls without \<^verbatim>\<open>flush\<close> at second \<open>sec\<close>.\<close>

fun deliveries_at :: "int \<Rightarrow> status_call list \<Rightarrow> mqtt_state \<Rightarrow> nat" where
  "deliveries_at sec [] s = 0"
| "deliveries_at sec (c # cs) s =
     (if at_time c = sec \<and> \<not> flush_arg c
      then length (published (status_step c s)) - length (published s) else 0)
     + deliveries_at sec cs (status_step c s)"

text \<open>\<^verbatim>\<open>isdigit\<close>: the decimal digits.\<close>

definition isdigit :: "char \<Rightarrow> bool" where
  "isdigit c = (48 \<le> (of_char c :: nat) \<and> (of_char c :: nat) \<le> 57)"

text \<open>The value of a string of decimal digits.\<close>

definition decimal :: "string \<Rightarrow> nat" where
  "decimal ds = foldl (\<lambda>a c. a * 10 + (of_char c - 48)) 0 ds"

text \<open>An instance of the parameters for the examples: the LP64 data model and a lookup
  that knows two names.\<close>

definition example_env :: env where
  "example_env = \<lparr>abi = LP64,
     dagalgo_code = (\<lambda>name. if name = ''ethash'' then 0 else if name = ''etchash'' then 1 else - 1),
     da_ethash = 0\<rparr>"

section \<open>Properties\<close>

subsection \<open>Notification and diagnostics: what they leave alone\<close>

lemma notify_loop_calls:
  "notify_loop t rs s = s\<lparr>calls := calls s @ callbacks_of t rs (vars s)\<rparr>"
  by (induction rs arbitrary: s) (simp_all add: callbacks_of_def invoke_def)

lemma notify_calls:
  "notify t s = s\<lparr>calls := calls s @ callbacks_of t (sub s) (vars s)\<rparr>"
  by (simp add: notify_def notify_loop_calls)

lemma subscribe_all_sub:
  "subscribe_all rs s = s\<lparr>sub := sub s @ rs\<rparr>"
  by (induction rs arbitrary: s) (simp_all add: mqtt_subscribe_def)

subsection \<open>The notification registry\<close>

text \<open>
  C8. Registration appends and never removes a duplicate: after any sequence \<open>regs\<close> of
  \<^verbatim>\<open>mqtt_subscribe\<close> calls the array is the old one followed by \<open>regs\<close>, entry for
  entry. A dispatch of kind \<open>k\<close> changes nothing but the log of calls, to which it adds
  one call for each registration of kind \<open>k\<close>, in registration order, with the function
  and the context of that registration. Two registrations of one kind on an empty
  registry are both called, the first one first.
\<close>

theorem C8_register_then_dispatch:
  "sub (subscribe_all regs s) = sub s @ regs
   \<and> length (sub (subscribe_all regs s)) = length (sub s) + length regs
   \<and> notify k (subscribe_all regs s) =
       (subscribe_all regs s)\<lparr>calls := calls s @
          map (\<lambda>r. \<lparr>cb_fn = fn r, cb_user = user r, cb_seen = vars s\<rparr>)
            (filter (\<lambda>r. type r = k) (sub s @ regs))\<rparr>
   \<and> calls (notify k (mqtt_subscribe k f2 u2 (mqtt_subscribe k f1 u1 (s\<lparr>sub := []\<rparr>)))) =
       calls s @ [\<lparr>cb_fn = f1, cb_user = u1, cb_seen = vars s\<rparr>,
                  \<lparr>cb_fn = f2, cb_user = u2, cb_seen = vars s\<rparr>]"
  by (simp add: subscribe_all_sub notify_calls callbacks_of_def mqtt_subscribe_def)

theorem C8_register_then_dispatch_witness:
  "calls (notify mqtt_notify_shutdown
      (subscribe_all
         [\<lparr>type = mqtt_notify_shutdown, fn = 1, user = 10\<rparr>,
          \<lparr>type = mqtt_notify_epoch, fn = 2, user = 20\<rparr>,
          \<lparr>type = mqtt_notify_shutdown, fn = 1, user = 10\<rparr>,
          \<lparr>type = mqtt_notify_shutdown, fn = 3, user = 30\<rparr>] init_state)) =
     [\<lparr>cb_fn = 1, cb_user = 10, cb_seen = init_session\<rparr>,
      \<lparr>cb_fn = 1, cb_user = 10, cb_seen = init_session\<rparr>,
      \<lparr>cb_fn = 3, cb_user = 30, cb_seen = init_session\<rparr>]"
  using C8_register_then_dispatch
    [of "[\<lparr>type = mqtt_notify_shutdown, fn = 1, user = 10\<rparr>,
          \<lparr>type = mqtt_notify_epoch, fn = 2, user = 20\<rparr>,
          \<lparr>type = mqtt_notify_shutdown, fn = 1, user = 10\<rparr>,
          \<lparr>type = mqtt_notify_shutdown, fn = 3, user = 30\<rparr>]" init_state mqtt_notify_shutdown]
  by (simp add: init_state_def)

subsection \<open>The status publisher\<close>

lemma mqtt_status_suppressed:
  "t = last_t s \<Longrightarrow> mqtt_status t res h m False s = s"
  by (simp add: mqtt_status_def)

lemma mqtt_status_passes:
  "\<not> (t = last_t s \<and> \<not> flush) \<Longrightarrow>
   mqtt_status t res h m flush s = publish_and_report res h m (s\<lparr>last_t := t\<rparr>)"
  by (auto simp add: mqtt_status_def)

lemma publish_and_report_fields:
  "published (publish_and_report res h m s) = published s @
     [\<lparr>pub_handle = h, pub_topic = MQTT_TOPIC_CACHE, pub_len = length m, pub_payload = m,
       pub_qos = qos_ack, pub_retain = True\<rparr>]"
  "last_t (publish_and_report res h m s) = last_t s"
  "vars (publish_and_report res h m s) = vars s"
  "sub (publish_and_report res h m s) = sub s"
  "calls (publish_and_report res h m s) = calls s"
  "stderr (publish_and_report res h m s) =
     (if res \<noteq> MOSQ_ERR_SUCCESS then stderr s @ [Publish_failed MQTT_TOPIC_CACHE res] else stderr s)"
  by (simp_all add: publish_and_report_def fprintf_stderr_def strlen_def Let_def)

lemma last_t_mqtt_status:
  "last_t (mqtt_status t res h m flush s) = t"
  by (simp add: mqtt_status_def publish_and_report_fields)

lemma published_mqtt_status:
  "published (mqtt_status t res h m flush s) =
     (if t = last_t s \<and> \<not> flush then published s
      else published s @
        [\<lparr>pub_handle = h, pub_topic = MQTT_TOPIC_CACHE, pub_len = length m, pub_payload = m,
          pub_qos = qos_ack, pub_retain = True\<rparr>])"
  by (simp add: mqtt_status_def publish_and_report_fields)

lemma status_run_suppressed:
  "last_t s = t \<Longrightarrow> \<forall>c\<in>set cs. at_time c = t \<and> \<not> flush_arg c \<Longrightarrow> status_run cs s = s"
  by (induction cs arbitrary: s) (simp_all add: status_step_def mqtt_status_suppressed)

lemma deliveries_none:
  "\<forall>c\<in>set cs. at_time c \<noteq> sec \<Longrightarrow> deliveries_at sec cs s = 0"
  by (induction cs arbitrary: s) simp_all

lemma deliveries_after:
  "last_t s = sec \<Longrightarrow> sorted (sec # map at_time cs) \<Longrightarrow> deliveries_at sec cs s = 0"
proof (induction cs arbitrary: s)
  case Nil
  show ?case by simp
next
  case (Cons c cs)
  show ?case
  proof (cases "at_time c = sec")
    case True
    have "last_t (status_step c s) = sec"
      using True by (simp add: status_step_def last_t_mqtt_status)
    moreover have "sorted (sec # map at_time cs)"
      using Cons.prems(2) by simp
    ultimately have "deliveries_at sec cs (status_step c s) = 0"
      by (rule Cons.IH)
    moreover have "\<not> flush_arg c \<Longrightarrow> status_step c s = s"
      using True Cons.prems(1) by (simp add: status_step_def mqtt_status_def)
    ultimately show ?thesis by simp
  next
    case False
    with Cons.prems have "\<forall>d\<in>set cs. at_time d \<noteq> sec" by fastforce
    then have "deliveries_at sec cs (status_step c s) = 0" by (rule deliveries_none)
    with False show ?thesis by simp
  qed
qed

lemma deliveries_le_one:
  "sorted (map at_time cs) \<Longrightarrow> deliveries_at sec cs s \<le> 1"
proof (induction cs arbitrary: s)
  case Nil
  show ?case by simp
next
  case (Cons c cs)
  have rest: "deliveries_at sec cs (status_step c s) \<le> 1"
    using Cons.prems by (intro Cons.IH) simp
  show ?case
  proof (cases "at_time c = sec")
    case True
    have "last_t (status_step c s) = sec"
      using True by (simp add: status_step_def last_t_mqtt_status)
    moreover have "sorted (sec # map at_time cs)"
      using Cons.prems True by simp
    ultimately have "deliveries_at sec cs (status_step c s) = 0"
      by (rule deliveries_after)
    then show ?thesis
      by (simp add: status_step_def published_mqtt_status)
  next
    case False
    with rest show ?thesis by simp
  qed
qed

lemma mqtt_status_again:
  "mqtt_status t r2 h2 m2 False (mqtt_status t r1 h1 m1 f1 s) = mqtt_status t r1 h1 m1 f1 s"
  by (rule mqtt_status_suppressed) (simp add: last_t_mqtt_status)

text \<open>
  C7. Two calls of \<^verbatim>\<open>mqtt_status\<close> at the same second \<open>t\<close> without \<^verbatim>\<open>flush\<close>, the
  first of them the first call of that second (\<open>last_t s \<noteq> t\<close>), publish exactly once:
  the first call's text. Whatever came before, a call without \<^verbatim>\<open>flush\<close> that follows
  a call at the same second returns without publishing or changing anything. Two calls
  at the same second with \<^verbatim>\<open>flush\<close> publish twice. In a run of calls, with or without
  \<^verbatim>\<open>flush\<close>, whose clock never goes back, the calls without \<^verbatim>\<open>flush\<close> at any one
  second \<open>sec\<close> publish at most once between them.
\<close>

theorem C7_rate_limit:
  "(last_t s \<noteq> t \<longrightarrow>
      published (mqtt_status t r2 h2 m2 False (mqtt_status t r1 h1 m1 False s)) =
        published s @
          [\<lparr>pub_handle = h1, pub_topic = MQTT_TOPIC_CACHE, pub_len = length m1,
            pub_payload = m1, pub_qos = qos_ack, pub_retain = True\<rparr>])
   \<and> mqtt_status t r2 h2 m2 False (mqtt_status t r1 h1 m1 f1 s) = mqtt_status t r1 h1 m1 f1 s
   \<and> published (mqtt_status t r2 h2 m2 True (mqtt_status t r1 h1 m1 True s)) =
        published s @
          [\<lparr>pub_handle = h1, pub_topic = MQTT_TOPIC_CACHE, pub_len = length m1,
            pub_payload = m1, pub_qos = qos_ack, pub_retain = True\<rparr>,
           \<lparr>pub_handle = h2, pub_topic = MQTT_TOPIC_CACHE, pub_len = length m2,
            pub_payload = m2, pub_qos = qos_ack, pub_retain = True\<rparr>]
   \<and> (sorted (map at_time cs) \<longrightarrow> deliveries_at sec cs s \<le> 1)"
proof -
  have second: "mqtt_status t r2 h2 m2 False (mqtt_status t r1 h1 m1 f1 s) = mqtt_status t r1 h1 m1 f1 s"
    by (rule mqtt_status_again)
  have first: "last_t s \<noteq> t \<longrightarrow>
      published (mqtt_status t r2 h2 m2 False (mqtt_status t r1 h1 m1 False s)) =
        published s @
          [\<lparr>pub_handle = h1, pub_topic = MQTT_TOPIC_CACHE, pub_len = length m1,
            pub_payload = m1, pub_qos = qos_ack, pub_retain = True\<rparr>]"
    by (simp add: mqtt_status_again published_mqtt_status)
  have forced: "published (mqtt_status t r2 h2 m2 True (mqtt_status t r1 h1 m1 True s)) =
        published s @
          [\<lparr>pub_handle = h1, pub_topic = MQTT_TOPIC_CACHE, pub_len = length m1,
            pub_payload = m1, pub_qos = qos_ack, pub_retain = True\<rparr>,
           \<lparr>pub_handle = h2, pub_topic = MQTT_TOPIC_CACHE, pub_len = length m2,
            pub_payload = m2, pub_qos = qos_ack, pub_retain = True\<rparr>]"
    by (simp add: published_mqtt_status)
  have limit: "sorted (map at_time cs) \<longrightarrow> deliveries_at sec cs s \<le> 1"
    using deliveries_le_one [of cs sec s] by blast
  from first second forced limit show ?thesis by blast
qed

theorem C7_rate_limit_witness:
  "last_t init_state \<noteq> 1700000000
   \<and> published (mqtt_status 1700000000 0 1 ''b'' False
                  (mqtt_status 1700000000 0 1 ''a'' False init_state)) =
       [\<lparr>pub_handle = 1, pub_topic = MQTT_TOPIC_CACHE, pub_len = 1,
         pub_payload = ''a'', pub_qos = qos_ack, pub_retain = True\<rparr>]
   \<and> length (published (mqtt_status 1700000000 0 1 ''b'' True
                  (mqtt_status 1700000000 0 1 ''a'' True init_state))) = 2
   \<and> sorted (map at_time
        [\<lparr>at_time = 5, pub_res = 0, handle = 1, text_arg = ''a'', flush_arg = False\<rparr>,
         \<lparr>at_time = 5, pub_res = 0, handle = 1, text_arg = ''b'', flush_arg = True\<rparr>,
         \<lparr>at_time = 5, pub_res = 0, handle = 1, text_arg = ''c'', flush_arg = False\<rparr>,
         \<lparr>at_time = 6, pub_res = 0, handle = 1, text_arg = ''d'', flush_arg = False\<rparr>])
   \<and> deliveries_at 5
        [\<lparr>at_time = 5, pub_res = 0, handle = 1, text_arg = ''a'', flush_arg = False\<rparr>,
         \<lparr>at_time = 5, pub_res = 0, handle = 1, text_arg = ''b'', flush_arg = True\<rparr>,
         \<lparr>at_time = 5, pub_res = 0, handle = 1, text_arg = ''c'', flush_arg = False\<rparr>,
         \<lparr>at_time = 6, pub_res = 0, handle = 1, text_arg = ''d'', flush_arg = False\<rparr>]
        init_state \<le> 1"
  using C7_rate_limit [of init_state 1700000000 0 1 "''b''" 0 1 "''a''" False
    "[\<lparr>at_time = 5, pub_res = 0, handle = 1, text_arg = ''a'', flush_arg = False\<rparr>,
      \<lparr>at_time = 5, pub_res = 0, handle = 1, text_arg = ''b'', flush_arg = True\<rparr>,
      \<lparr>at_time = 5, pub_res = 0, handle = 1, text_arg = ''c'', flush_arg = False\<rparr>,
      \<lparr>at_time = 6, pub_res = 0, handle = 1, text_arg = ''d'', flush_arg = False\<rparr>]" 5]
  by (simp add: init_state_def status_step_def mqtt_status_def publish_and_report_def strlen_def
      MOSQ_ERR_SUCCESS_def)

text \<open>
  C10. A call of \<^verbatim>\<open>mqtt_status\<close> that passes the rate limit (another second than the last
  one, or \<^verbatim>\<open>flush\<close>) stores the second in \<^verbatim>\<open>last\<close> and then attempts the publish
  on the state so updated; \<^verbatim>\<open>last\<close> is \<open>t\<close> afterwards whatever \<^verbatim>\<open>mosquitto_publish\<close>
  returned, one publish has been attempted, and a failure is reported on the diagnostic
  output. Every further run of calls at the same second without \<^verbatim>\<open>flush\<close> leaves the
  state as it is, so it publishes nothing, also after a failed publish.
\<close>

theorem C10_timestamp_before_publish:
  "\<not> (t = last_t s \<and> \<not> flush) \<Longrightarrow>
     mqtt_status t res h m flush s = publish_and_report res h m (s\<lparr>last_t := t\<rparr>)
     \<and> last_t (mqtt_status t res h m flush s) = t
     \<and> length (published (mqtt_status t res h m flush s)) = Suc (length (published s))
     \<and> (res \<noteq> MOSQ_ERR_SUCCESS \<longrightarrow>
          stderr (mqtt_status t res h m flush s) = stderr s @ [Publish_failed MQTT_TOPIC_CACHE res])
     \<and> ((\<forall>c\<in>set cs. at_time c = t \<and> \<not> flush_arg c) \<longrightarrow>
          status_run cs (mqtt_status t res h m flush s) = mqtt_status t res h m flush s)"
proof -
  assume pass: "\<not> (t = last_t s \<and> \<not> flush)"
  then have eq: "mqtt_status t res h m flush s = publish_and_report res h m (s\<lparr>last_t := t\<rparr>)"
    by (rule mqtt_status_passes)
  have later: "(\<forall>c\<in>set cs. at_time c = t \<and> \<not> flush_arg c) \<longrightarrow>
          status_run cs (mqtt_status t res h m flush s) = mqtt_status t res h m flush s"
    by (simp add: status_run_suppressed last_t_mqtt_status)
  have "length (published (mqtt_status t res h m flush s)) = Suc (length (published s))"
    by (simp add: eq publish_and_report_fields)
  moreover have "res \<noteq> MOSQ_ERR_SUCCESS \<longrightarrow>
          stderr (mqtt_status t res h m flush s) = stderr s @ [Publish_failed MQTT_TOPIC_CACHE res]"
    by (simp add: eq publish_and_report_fields)
  ultimately show ?thesis
    using eq later last_t_mqtt_status [of t res h m flush s] by blast
qed

theorem C10_timestamp_before_publish_witness:
  "\<not> (1700000000 = last_t init_state \<and> \<not> False)
   \<and> (14 :: int) \<noteq> MOSQ_ERR_SUCCESS
   \<and> last_t (mqtt_status 1700000000 14 1 ''a'' False init_state) = 1700000000
   \<and> stderr (mqtt_status 1700000000 14 1 ''a'' False init_state) = [Publish_failed MQTT_TOPIC_CACHE 14]
   \<and> status_run
        [\<lparr>at_time = 1700000000, pub_res = 0, handle = 1, text_arg = ''b'', flush_arg = False\<rparr>,
         \<lparr>at_time = 1700000000, pub_res = 0, handle = 1, text_arg = ''c'', flush_arg = False\<rparr>]
        (mqtt_status 1700000000 14 1 ''a'' False init_state) =
       mqtt_status 1700000000 14 1 ''a'' False init_state"
  using C10_timestamp_before_publish [of 1700000000 init_state False 14 1 "''a''"
    "[\<lparr>at_time = 1700000000, pub_res = 0, handle = 1, text_arg = ''b'', flush_arg = False\<rparr>,
      \<lparr>at_time = 1700000000, pub_res = 0, handle = 1, text_arg = ''c'', flush_arg = False\<rparr>]"]
  by (simp add: init_state_def status_step_def mqtt_status_def publish_and_report_def strlen_def
      MOSQ_ERR_SUCCESS_def fprintf_stderr_def)

subsection \<open>C strings\<close>

lemma cstr_no_nul: "CHR 0x00 \<notin> set (cstr p)"
  unfolding cstr_def by (induction p) auto

lemma cstr_id: "CHR 0x00 \<notin> set p \<Longrightarrow> cstr p = p"
  unfolding cstr_def by (induction p) auto

lemma deref_nul_iff: "CHR 0x00 \<notin> set r \<Longrightarrow> (deref r = CHR 0x00) = (r = [])"
  by (cases r) auto

lemma of_char_nul_iff: "((of_char c :: nat) = 0) = (c = CHR 0x00)"
  using of_char_eq_iff [of c "CHR 0x00", where ?'a = nat] by simp

lemma strncmp_prefix:
  "CHR 0x00 \<notin> set a \<Longrightarrow> (strncmp a b (length a) = 0) = prefix a b"
proof (induction a arbitrary: b)
  case Nil
  show ?case by simp
next
  case (Cons x xs)
  then have x: "x \<noteq> CHR 0x00" and xs: "CHR 0x00 \<notin> set xs" by auto
  show ?case
  proof (cases b)
    case Nil
    with x show ?thesis by (simp add: of_char_nul_iff)
  next
    case (Cons y ys)
    with x Cons.IH [OF xs, of ys] show ?thesis by auto
  qed
qed

lemma prefix_takeWhile:
  "prefix a (takeWhile P p) = (prefix a p \<and> (\<forall>x\<in>set a. P x))"
proof (induction p arbitrary: a)
  case Nil
  show ?case by auto
next
  case (Cons y ys)
  show ?case by (cases a) (auto simp add: Cons.IH)
qed

lemma prefix_cstr: "CHR 0x00 \<notin> set a \<Longrightarrow> prefix a (cstr p) = prefix a p"
  by (auto simp add: cstr_def prefix_takeWhile)

lemma next_hold_iff:
  "(strncmp HOLD_STATE (cstr payload) (strlen HOLD_STATE) = 0) = prefix HOLD_STATE payload"
proof -
  have nul: "CHR 0x00 \<notin> set HOLD_STATE" by (simp add: HOLD_STATE_def)
  show ?thesis
    unfolding strlen_def by (simp only: strncmp_prefix [OF nul] prefix_cstr [OF nul])
qed

lemma strchr_absent: "c \<notin> set xs \<Longrightarrow> strchr xs c = None"
  by (induction xs) auto

lemma strchr_first: "c \<notin> set f \<Longrightarrow> strchr (f @ c # r) c = Some (c # r)"
  by (induction f) auto

subsection \<open>strtoul\<close>

lemma scan_digits_suffix: "scan_digits base acc str = (a, r) \<Longrightarrow> suffix r str"
proof (induction str arbitrary: acc)
  case Nil
  then show ?case by simp
next
  case (Cons c cs)
  then show ?case by (auto split: option.splits intro: suffix_ConsI)
qed

lemma scan_sign_suffix: "suffix (snd (scan_sign str)) str"
  by (cases str) (auto intro: suffix_ConsI)

lemma scan_base_suffix: "suffix (snd (scan_base str)) str"
  by (cases str rule: scan_base.cases) (auto intro: suffix_ConsI)

lemma strtoul_suffix:
  assumes "strtoul m nptr = (v, r)"
  shows "suffix r nptr"
proof -
  obtain neg s2 where sign: "scan_sign (dropWhile isspace nptr) = (neg, s2)" by force
  obtain base s3 where base: "scan_base s2 = (base, s3)" by force
  obtain acc rest where digits: "scan_digits base 0 s3 = (acc, rest)" by force
  have "suffix s2 (dropWhile isspace nptr)" using scan_sign_suffix [of "dropWhile isspace nptr"] sign by simp
  then have s2: "suffix s2 nptr" using suffix_dropWhile suffix_order.trans by blast
  have "suffix s3 s2" using scan_base_suffix [of s2] base by simp
  moreover have "suffix rest s3" using digits by (rule scan_digits_suffix)
  ultimately have rest: "suffix rest nptr" using s2 suffix_order.trans by blast
  from assms sign base digits have "r = nptr \<or> r = rest"
    by (auto simp add: strtoul_def split: if_splits)
  with rest show ?thesis by auto
qed

lemma strtoul_rest_no_nul:
  assumes "strtoul m (cstr p) = (v, r)"
  shows "CHR 0x00 \<notin> set r"
  using strtoul_suffix [OF assms] cstr_no_nul [of p] set_mono_suffix by blast

lemma isdigit_digit_in: "isdigit c \<Longrightarrow> digit_in 10 c = Some (of_char c - 48)"
  by (auto simp add: isdigit_def digit_in_def digit_val_def Let_def)

lemma isdigit_not_space: "isdigit c \<Longrightarrow> \<not> isspace c"
  by (auto simp add: isdigit_def isspace_def)

lemma isdigit_not_sign: "isdigit c \<Longrightarrow> c \<noteq> CHR ''-'' \<and> c \<noteq> CHR ''+''"
  by (auto simp add: isdigit_def)

lemma scan_digits_decimal:
  assumes "\<forall>c\<in>set ds. isdigit c" and "digit_in 10 (deref rest) = None"
  shows "scan_digits 10 acc (ds @ rest) = (foldl (\<lambda>a c. a * 10 + (of_char c - 48)) acc ds, rest)"
  using assms(1)
proof (induction ds arbitrary: acc)
  case Nil
  with assms(2) show ?case by (cases rest) simp_all
next
  case (Cons d ds)
  then show ?case by (simp add: isdigit_digit_in)
qed

lemma scan_base_decimal:
  assumes "str \<noteq> []" and "hd str \<noteq> CHR ''0''"
  shows "scan_base str = (10, str)"
  using assms by (cases str rule: scan_base.cases) auto

text \<open>A decimal numeral without a leading zero, followed by something that is not a
  decimal digit, converts to its value, or to \<^verbatim>\<open>ULONG_MAX\<close> beyond it, and \<^verbatim>\<open>end\<close>
  points behind the numeral.\<close>

lemma strtoul_decimal:
  assumes "ds \<noteq> []" and "\<forall>c\<in>set ds. isdigit c" and "hd ds \<noteq> CHR ''0''"
    and "digit_in 10 (deref rest) = None"
  shows "strtoul m (ds @ rest) = (min m (decimal ds), rest)"
proof -
  obtain d ds' where ds: "ds = d # ds'" using assms(1) by (cases ds) auto
  with assms(2) have d: "isdigit d" by simp
  have "dropWhile isspace (ds @ rest) = ds @ rest"
    using ds isdigit_not_space [OF d] by simp
  moreover have "scan_sign (ds @ rest) = (False, ds @ rest)"
    using ds isdigit_not_sign [OF d] by simp
  moreover have "scan_base (ds @ rest) = (10, ds @ rest)"
    using assms(1,3) by (intro scan_base_decimal) simp_all
  moreover have "digit_in 10 (deref (ds @ rest)) \<noteq> None"
    using ds isdigit_digit_in [OF d] by simp
  moreover have "scan_digits 10 0 (ds @ rest) = (decimal ds, rest)"
    unfolding decimal_def using assms(2,4) by (rule scan_digits_decimal)
  ultimately show ?thesis
    by (auto simp add: strtoul_def min_def)
qed

lemma strtoul_decimal_example: "strtoul (ULONG_MAX LP64) ''418 x ethash'' = (418, '' x ethash'')"
  using strtoul_decimal [of "''418''" "'' x ethash''" "ULONG_MAX LP64"]
  by (simp add: isdigit_def decimal_def digit_in_def digit_val_def)

subsection \<open>The reception path, topic by topic\<close>

lemma topic_type_simps:
  "topic_type MQTT_TOPIC_EPOCH = Some mqtt_notify_epoch"
  "topic_type MQTT_TOPIC_MINED_STATE = Some mqtt_notify_mined_state"
  "topic_type MQTT_TOPIC_SHUTDOWN = Some mqtt_notify_shutdown"
  by (simp_all add: topic_type_def MQTT_TOPIC_EPOCH_def MQTT_TOPIC_MINED_STATE_def
      MQTT_TOPIC_SHUTDOWN_def)

lemma message_mined_state:
  "message e MQTT_TOPIC_MINED_STATE payload s =
     Some (notify mqtt_notify_mined_state
       ((if hold (vars s) \<noteq> prefix HOLD_STATE payload
         then debug 2 (Debug_holding (prefix HOLD_STATE payload)) s else s)
        \<lparr>vars := (vars s)\<lparr>hold := prefix HOLD_STATE payload\<rparr>\<rparr>))"
  by (simp add: message_def topic_type_simps next_hold_iff Let_def debug_def fprintf_stderr_def)

lemma message_epoch:
  assumes "strtoul (ULONG_MAX (abi e)) (cstr payload) = (v, rest)"
  shows "message e MQTT_TOPIC_EPOCH payload s =
     (case rest of
        [] \<Rightarrow> Some (process_epoch e (of_nat v) None s)
      | c # r \<Rightarrow>
          if c = CHR '' '' then Some (process_epoch e (of_nat v) (Some r) s)
          else Some (fprintf_stderr (Bad_number (cstr payload)) s))"
proof -
  have "CHR 0x00 \<notin> set rest" using assms by (rule strtoul_rest_no_nul)
  then show ?thesis
    using assms by (cases rest) (auto simp add: message_def topic_type_simps)
qed

lemma message_shutdown:
  assumes "strtoul (ULONG_MAX (abi e)) (cstr payload) = (v, rest)"
  shows "message e MQTT_TOPIC_SHUTDOWN payload s =
     (if rest = [] \<or> hd rest = CHR '' ''
      then Some (notify mqtt_notify_shutdown
                   (s\<lparr>vars := (vars s)\<lparr>shutdown_pending := ((of_nat v :: 32 word) \<noteq> 0)\<rparr>\<rparr>))
      else Some (fprintf_stderr (Bad_number (cstr payload)) s))"
proof -
  have "CHR 0x00 \<notin> set rest" using assms by (rule strtoul_rest_no_nul)
  then show ?thesis
    using assms by (cases rest) (auto simp add: message_def topic_type_simps)
qed

lemma process_epoch_no_names:
  "process_epoch e n None s =
     (if da_ethash e = curr_algo (vars s) \<and> n = ucast (curr_epoch (vars s)) then s
      else notify mqtt_notify_epoch
             (s\<lparr>vars := (vars s)\<lparr>curr_algo := da_ethash e, curr_epoch := ucast n\<rparr>\<rparr>))"
  by (simp add: process_epoch_def)

lemma process_epoch_name_missing:
  "CHR '' '' \<notin> set names \<Longrightarrow>
   process_epoch e n (Some names) s = fprintf_stderr Algo_name_missing s"
  by (simp add: process_epoch_def strchr_absent)

lemma process_epoch_named:
  "CHR '' '' \<notin> set field \<Longrightarrow>
   process_epoch e n (Some (field @ CHR '' '' # name)) s =
     (if dagalgo_code e name < 0 then fprintf_stderr (Unknown_algo name) s
      else if dagalgo_code e name = curr_algo (vars s) \<and> n = ucast (curr_epoch (vars s)) then s
      else notify mqtt_notify_epoch
             (s\<lparr>vars := (vars s)\<lparr>curr_algo := dagalgo_code e name, curr_epoch := ucast n\<rparr>\<rparr>))"
  by (simp add: process_epoch_def strchr_first Let_def)

lemma notify_fields:
  "vars (notify t s) = vars s"
  "sub (notify t s) = sub s"
  "last_t (notify t s) = last_t s"
  "published (notify t s) = published s"
  "stderr (notify t s) = stderr s"
  "calls (notify t s) = calls s @ callbacks_of t (sub s) (vars s)"
  by (simp_all add: notify_calls)

lemma fprintf_stderr_fields:
  "vars (fprintf_stderr d s) = vars s"
  "sub (fprintf_stderr d s) = sub s"
  "last_t (fprintf_stderr d s) = last_t s"
  "published (fprintf_stderr d s) = published s"
  "calls (fprintf_stderr d s) = calls s"
  "stderr (fprintf_stderr d s) = stderr s @ [d]"
  by (simp_all add: fprintf_stderr_def)

lemma ucast_of_nat_16: "(ucast (of_nat v :: 32 word) :: 16 word) = of_nat v"
proof -
  have "(65536 :: nat) dvd 4294967296" by simp
  then have "v mod 4294967296 mod 65536 = v mod 65536" by (rule mod_mod_cancel)
  then show ?thesis
    by (simp add: unsigned_of_nat word_unat_eq_iff unat_of_nat take_bit_eq_mod)
qed

lemma unat_of_nat_16: "unat (of_nat v :: 16 word) = v mod 65536"
  by (simp add: unat_of_nat)

lemma epoch_unchanged:
  "(of_nat v :: 32 word) = ucast (w :: 16 word) \<Longrightarrow> w = of_nat v"
  by (metis of_nat_unat ucast_id ucast_of_nat_16)

lemma process_epoch_no_names_result:
  "curr_algo (vars (process_epoch e (of_nat v) None s)) = da_ethash e
   \<and> unat (curr_epoch (vars (process_epoch e (of_nat v) None s))) = v mod 65536"
  by (auto simp add: process_epoch_no_names notify_fields ucast_of_nat_16 unat_of_nat_16
      dest: epoch_unchanged)

lemma process_epoch_named_result:
  "CHR '' '' \<notin> set field \<Longrightarrow> 0 \<le> dagalgo_code e name \<Longrightarrow>
   curr_algo (vars (process_epoch e (of_nat v) (Some (field @ CHR '' '' # name)) s)) =
     dagalgo_code e name
   \<and> unat (curr_epoch (vars (process_epoch e (of_nat v) (Some (field @ CHR '' '' # name)) s))) =
       v mod 65536"
  by (auto simp add: process_epoch_named notify_fields ucast_of_nat_16 unat_of_nat_16
      dest: epoch_unchanged)

lemmas strtoul_eval = strtoul_def isspace_def digit_in_def digit_val_def

text \<open>
  C1, as the code has it. \<^verbatim>\<open>message\<close> reads the number with \<^verbatim>\<open>strtoul\<close>, which
  returns \<open>v\<close> and stops at \<open>rest\<close> (for a decimal numeral \<open>strtoul_decimal\<close> gives
  both). \<^verbatim>\<open>process_epoch\<close> then looks for a further space
  in what follows the number's space and takes the algorithm name after it, so a payload
  with a name has the form \<^verbatim>\<open><n> <field> <name>\<close>, \<open>field\<close> being any text without a
  space.
  \<^item> Nothing after the number: the algorithm becomes \<^verbatim>\<open>da_ethash\<close>.
  \<^item> \<^verbatim>\<open><n> <field> <name>\<close> with a name the lookup resolves (a code that is not
    negative): the algorithm becomes that code.
  In both cases the epoch becomes the number, for a number below 65536 (\<^verbatim>\<open>curr_epoch\<close>
  has 16 bits).
  \<^item> \<^verbatim>\<open><n> <field> <name>\<close> with a name the lookup does not resolve, and
    \<^verbatim>\<open><n> <text>\<close> with no further space: the message is dropped; one diagnostic line is
    written and nothing else changes.
\<close>

theorem C1_epoch_payload:
  assumes "strtoul (ULONG_MAX (abi e)) (cstr payload) = (v, rest)"
  shows "(rest = [] \<and> v < 65536 \<longrightarrow>
            (\<exists>s'. message e MQTT_TOPIC_EPOCH payload s = Some s'
               \<and> curr_algo (vars s') = da_ethash e
               \<and> unat (curr_epoch (vars s')) = v))
       \<and> (rest = CHR '' '' # field @ CHR '' '' # name \<and> CHR '' '' \<notin> set field
            \<and> 0 \<le> dagalgo_code e name \<and> v < 65536 \<longrightarrow>
            (\<exists>s'. message e MQTT_TOPIC_EPOCH payload s = Some s'
               \<and> curr_algo (vars s') = dagalgo_code e name
               \<and> unat (curr_epoch (vars s')) = v))
       \<and> (rest = CHR '' '' # field @ CHR '' '' # name \<and> CHR '' '' \<notin> set field
            \<and> dagalgo_code e name < 0 \<longrightarrow>
            message e MQTT_TOPIC_EPOCH payload s = Some (s\<lparr>stderr := stderr s @ [Unknown_algo name]\<rparr>))
       \<and> (rest = CHR '' '' # names \<and> CHR '' '' \<notin> set names \<longrightarrow>
            message e MQTT_TOPIC_EPOCH payload s = Some (s\<lparr>stderr := stderr s @ [Algo_name_missing]\<rparr>))"
proof (intro conjI impI)
  assume "rest = [] \<and> v < 65536"
  then show "\<exists>s'. message e MQTT_TOPIC_EPOCH payload s = Some s'
               \<and> curr_algo (vars s') = da_ethash e
               \<and> unat (curr_epoch (vars s')) = v"
    by (simp add: message_epoch [OF assms] process_epoch_no_names_result)
next
  assume "rest = CHR '' '' # field @ CHR '' '' # name \<and> CHR '' '' \<notin> set field
            \<and> 0 \<le> dagalgo_code e name \<and> v < 65536"
  then show "\<exists>s'. message e MQTT_TOPIC_EPOCH payload s = Some s'
               \<and> curr_algo (vars s') = dagalgo_code e name
               \<and> unat (curr_epoch (vars s')) = v"
    by (simp add: message_epoch [OF assms] process_epoch_named_result)
next
  assume "rest = CHR '' '' # field @ CHR '' '' # name \<and> CHR '' '' \<notin> set field
            \<and> dagalgo_code e name < 0"
  then show "message e MQTT_TOPIC_EPOCH payload s = Some (s\<lparr>stderr := stderr s @ [Unknown_algo name]\<rparr>)"
    by (simp add: message_epoch [OF assms] process_epoch_named fprintf_stderr_def)
next
  assume "rest = CHR '' '' # names \<and> CHR '' '' \<notin> set names"
  then show "message e MQTT_TOPIC_EPOCH payload s = Some (s\<lparr>stderr := stderr s @ [Algo_name_missing]\<rparr>)"
    by (simp add: message_epoch [OF assms] process_epoch_name_missing fprintf_stderr_def)
qed

theorem C1_epoch_payload_witness:
  "(\<exists>s'. message example_env MQTT_TOPIC_EPOCH ''7'' init_state = Some s'
       \<and> curr_algo (vars s') = 0 \<and> unat (curr_epoch (vars s')) = 7)
   \<and> (\<exists>s'. message example_env MQTT_TOPIC_EPOCH ''7 x etchash'' init_state = Some s'
       \<and> curr_algo (vars s') = 1 \<and> unat (curr_epoch (vars s')) = 7)
   \<and> message example_env MQTT_TOPIC_EPOCH ''7 x nosuch'' init_state =
       Some (init_state\<lparr>stderr := [Unknown_algo ''nosuch'']\<rparr>)
   \<and> message example_env MQTT_TOPIC_EPOCH ''7 etchash'' init_state =
       Some (init_state\<lparr>stderr := [Algo_name_missing]\<rparr>)"
proof -
  have p1: "strtoul (ULONG_MAX (abi example_env)) (cstr ''7'') = (7, [])"
    by (simp add: strtoul_eval example_env_def cstr_def)
  have p2: "strtoul (ULONG_MAX (abi example_env)) (cstr ''7 x etchash'') = (7, '' x etchash'')"
    by (simp add: strtoul_eval example_env_def cstr_def)
  have p3: "strtoul (ULONG_MAX (abi example_env)) (cstr ''7 x nosuch'') = (7, '' x nosuch'')"
    by (simp add: strtoul_eval example_env_def cstr_def)
  have p4: "strtoul (ULONG_MAX (abi example_env)) (cstr ''7 etchash'') = (7, '' etchash'')"
    by (simp add: strtoul_eval example_env_def cstr_def)
  have st: "stderr init_state = []" by (simp add: init_state_def)
  show ?thesis
    using C1_epoch_payload [OF p1, where s = init_state]
      C1_epoch_payload [OF p2, where s = init_state and field = "''x''" and name = "''etchash''"]
      C1_epoch_payload [OF p3, where s = init_state and field = "''x''" and name = "''nosuch''"]
      C1_epoch_payload [OF p4, where s = init_state and names = "''etchash''"]
    by (simp add: example_env_def st)
qed

text \<open>
  C1 as stated fails: in \<^verbatim>\<open>5 ethash\<close> the number parses as 5 and the lookup resolves
  \<^verbatim>\<open>ethash\<close>, yet the message is dropped as lacking an algorithm name; algorithm and
  epoch stay at their initial values.
\<close>

theorem C1_counterexample:
  "strtoul (ULONG_MAX (abi example_env)) (cstr ''5 ethash'') = (5, '' ethash'')
   \<and> dagalgo_code example_env ''ethash'' = 0
   \<and> map_option (\<lambda>s'. (curr_algo (vars s'), curr_epoch (vars s')))
        (message example_env MQTT_TOPIC_EPOCH ''5 ethash'' init_state) = Some (- 1, 0)
   \<and> message example_env MQTT_TOPIC_EPOCH ''5 ethash'' init_state =
        Some (init_state\<lparr>stderr := [Algo_name_missing]\<rparr>)"
proof -
  have p: "strtoul (ULONG_MAX (abi example_env)) (cstr ''5 ethash'') = (5, '' ethash'')"
    by (simp add: strtoul_eval example_env_def cstr_def)
  have m: "message example_env MQTT_TOPIC_EPOCH ''5 ethash'' init_state =
        Some (init_state\<lparr>stderr := [Algo_name_missing]\<rparr>)"
    by (simp add: message_epoch [OF p] process_epoch_name_missing fprintf_stderr_def init_state_def)
  show ?thesis
    by (simp add: p m) (simp add: example_env_def init_state_def init_session_def)
qed

subsection \<open>The mined-state topic\<close>

text \<open>
  C2, as the code has it. On the mined-state topic the decoded flag is true exactly when
  the payload begins with \<^verbatim>\<open>HOLD_STATE\<close>, the text \<^verbatim>\<open>epoch_upload\<close> and one space.
  \<^verbatim>\<open>hold\<close> is set to that flag, and then the mined-state notification is dispatched, for
  every message and whether or not the flag differs from \<^verbatim>\<open>hold\<close> (only the debug line
  depends on the difference): every registered mined-state callback is called once, in
  registration order, and sees \<^verbatim>\<open>hold\<close> already updated.
\<close>

theorem C2_mined_state:
  "\<exists>s'. message e MQTT_TOPIC_MINED_STATE payload s = Some s'
      \<and> vars s' = (vars s)\<lparr>hold := prefix HOLD_STATE payload\<rparr>
      \<and> calls s' = calls s @
           map (\<lambda>r. \<lparr>cb_fn = fn r, cb_user = user r,
                     cb_seen = (vars s)\<lparr>hold := prefix HOLD_STATE payload\<rparr>\<rparr>)
             (filter (\<lambda>r. type r = mqtt_notify_mined_state) (sub s))"
  by (simp add: message_mined_state notify_fields debug_def fprintf_stderr_fields callbacks_of_def)

theorem C2_mined_state_witness:
  "\<exists>s'. message example_env MQTT_TOPIC_MINED_STATE ''epoch_upload 12''
          (mqtt_subscribe mqtt_notify_mined_state 1 10 init_state) = Some s'
      \<and> vars s' = init_session\<lparr>hold := True\<rparr>
      \<and> calls s' = [\<lparr>cb_fn = 1, cb_user = 10, cb_seen = init_session\<lparr>hold := True\<rparr>\<rparr>]"
  using C2_mined_state [of example_env "''epoch_upload 12''"
      "mqtt_subscribe mqtt_notify_mined_state 1 10 init_state"]
  by (simp add: HOLD_STATE_def mqtt_subscribe_def init_state_def)

text \<open>
  C2 as stated fails: with \<^verbatim>\<open>hold\<close> false, the payload \<^verbatim>\<open>other\<close> decodes to false, the
  same value, and the registered callback is called all the same.
\<close>

theorem C2_counterexample:
  "\<not> hold (vars (mqtt_subscribe mqtt_notify_mined_state 1 10 init_state))
   \<and> \<not> prefix HOLD_STATE ''other''
   \<and> message example_env MQTT_TOPIC_MINED_STATE ''other''
        (mqtt_subscribe mqtt_notify_mined_state 1 10 init_state) =
      Some ((mqtt_subscribe mqtt_notify_mined_state 1 10 init_state)
              \<lparr>calls := [\<lparr>cb_fn = 1, cb_user = 10, cb_seen = init_session\<rparr>]\<rparr>)"
  by (simp add: message_mined_state notify_calls callbacks_of_def HOLD_STATE_def debug_def
      mqtt_subscribe_def init_state_def init_session_def)

subsection \<open>The numeric topics\<close>

text \<open>
  C5. On the epoch topic and on the shutdown topic, when the number stops at a byte
  \<open>c\<close> that is not a space (\<^verbatim>\<open>strtoul\<close> leaves \<open>c # r\<close>; the end of the string would
  leave nothing), the message is dropped: the state afterwards is the state before with
  one \<^verbatim>\<open>bad number\<close> line on the diagnostic output, so no session variable has changed
  and no callback was called.
\<close>

theorem C5_trailing_garbage:
  assumes "topic = MQTT_TOPIC_EPOCH \<or> topic = MQTT_TOPIC_SHUTDOWN"
    and "strtoul (ULONG_MAX (abi e)) (cstr payload) = (v, c # r)"
    and "c \<noteq> CHR '' ''"
  shows "message e topic payload s = Some (s\<lparr>stderr := stderr s @ [Bad_number (cstr payload)]\<rparr>)"
  using assms(1,3)
  by (auto simp add: message_epoch [OF assms(2)] message_shutdown [OF assms(2)] fprintf_stderr_def)

theorem C5_trailing_garbage_witness:
  "strtoul (ULONG_MAX (abi example_env)) (cstr ''12x'') = (12, ''x'')
   \<and> message example_env MQTT_TOPIC_SHUTDOWN ''12x''
        (mqtt_subscribe mqtt_notify_shutdown 1 10 init_state) =
      Some ((mqtt_subscribe mqtt_notify_shutdown 1 10 init_state)\<lparr>stderr := [Bad_number ''12x'']\<rparr>)"
proof -
  have p: "strtoul (ULONG_MAX (abi example_env)) (cstr ''12x'') = (12, ''x'')"
    by (simp add: strtoul_eval example_env_def cstr_def)
  have "message example_env MQTT_TOPIC_SHUTDOWN ''12x''
        (mqtt_subscribe mqtt_notify_shutdown 1 10 init_state) =
      Some ((mqtt_subscribe mqtt_notify_shutdown 1 10 init_state)
        \<lparr>stderr := stderr (mqtt_subscribe mqtt_notify_shutdown 1 10 init_state) @
           [Bad_number (cstr ''12x'')]\<rparr>)"
    by (rule C5_trailing_garbage [OF _ p]) simp_all
  then show ?thesis
    using p by (simp add: cstr_def mqtt_subscribe_def init_state_def)
qed

text \<open>
  The shutdown topic. When \<^verbatim>\<open>strtoul\<close> returns \<open>v\<close> and stops at the end of the string
  or at a space, \<^verbatim>\<open>shutdown_pending\<close> is set to whether \<^verbatim>\<open>n\<close>, the value stored in the
  32-bit \<^verbatim>\<open>unsigned\<close>, is non-zero, and the shutdown notification is dispatched; neither
  depends on the flag's value before. The payloads \<^verbatim>\<open>0\<close>, \<^verbatim>\<open>1\<close>, \<^verbatim>\<open>1\<close> in a row give
  three dispatches: each registered shutdown callback is called three times and sees the
  flag false, then true, then true.
\<close>

lemma shutdown_parsed:
  "(strtoul (ULONG_MAX (abi e)) (cstr payload) = (v, rest)
      \<and> (rest = [] \<or> (\<exists>r. rest = CHR '' '' # r)) \<longrightarrow>
      message e MQTT_TOPIC_SHUTDOWN payload s =
        Some (notify mqtt_notify_shutdown
                (s\<lparr>vars := (vars s)\<lparr>shutdown_pending := ((of_nat v :: 32 word) \<noteq> 0)\<rparr>\<rparr>)))
   \<and> (\<exists>s3. run e [Message MQTT_TOPIC_SHUTDOWN ''0'', Message MQTT_TOPIC_SHUTDOWN ''1'',
                   Message MQTT_TOPIC_SHUTDOWN ''1''] s = Some s3
         \<and> vars s3 = (vars s)\<lparr>shutdown_pending := True\<rparr>
         \<and> calls s3 = calls s @
             map (\<lambda>r. \<lparr>cb_fn = fn r, cb_user = user r,
                       cb_seen = (vars s)\<lparr>shutdown_pending := False\<rparr>\<rparr>)
               (filter (\<lambda>r. type r = mqtt_notify_shutdown) (sub s)) @
             map (\<lambda>r. \<lparr>cb_fn = fn r, cb_user = user r,
                       cb_seen = (vars s)\<lparr>shutdown_pending := True\<rparr>\<rparr>)
               (filter (\<lambda>r. type r = mqtt_notify_shutdown) (sub s)) @
             map (\<lambda>r. \<lparr>cb_fn = fn r, cb_user = user r,
                       cb_seen = (vars s)\<lparr>shutdown_pending := True\<rparr>\<rparr>)
               (filter (\<lambda>r. type r = mqtt_notify_shutdown) (sub s)))"
proof (rule conjI)
  show "strtoul (ULONG_MAX (abi e)) (cstr payload) = (v, rest)
      \<and> (rest = [] \<or> (\<exists>r. rest = CHR '' '' # r)) \<longrightarrow>
      message e MQTT_TOPIC_SHUTDOWN payload s =
        Some (notify mqtt_notify_shutdown
                (s\<lparr>vars := (vars s)\<lparr>shutdown_pending := ((of_nat v :: 32 word) \<noteq> 0)\<rparr>\<rparr>))"
  proof
    assume parsed: "strtoul (ULONG_MAX (abi e)) (cstr payload) = (v, rest)
      \<and> (rest = [] \<or> (\<exists>r. rest = CHR '' '' # r))"
    then have p: "strtoul (ULONG_MAX (abi e)) (cstr payload) = (v, rest)" by simp
    from parsed show "message e MQTT_TOPIC_SHUTDOWN payload s =
        Some (notify mqtt_notify_shutdown
                (s\<lparr>vars := (vars s)\<lparr>shutdown_pending := ((of_nat v :: 32 word) \<noteq> 0)\<rparr>\<rparr>))"
      by (auto simp add: message_shutdown [OF p])
  qed
next
  have zero: "strtoul (ULONG_MAX (abi e)) (cstr ''0'') = (0, [])"
    by (cases "abi e") (simp_all add: strtoul_eval cstr_def)
  have one: "strtoul (ULONG_MAX (abi e)) (cstr ''1'') = (1, [])"
    by (cases "abi e") (simp_all add: strtoul_eval cstr_def)
  show "\<exists>s3. run e [Message MQTT_TOPIC_SHUTDOWN ''0'', Message MQTT_TOPIC_SHUTDOWN ''1'',
                   Message MQTT_TOPIC_SHUTDOWN ''1''] s = Some s3
         \<and> vars s3 = (vars s)\<lparr>shutdown_pending := True\<rparr>
         \<and> calls s3 = calls s @
             map (\<lambda>r. \<lparr>cb_fn = fn r, cb_user = user r,
                       cb_seen = (vars s)\<lparr>shutdown_pending := False\<rparr>\<rparr>)
               (filter (\<lambda>r. type r = mqtt_notify_shutdown) (sub s)) @
             map (\<lambda>r. \<lparr>cb_fn = fn r, cb_user = user r,
                       cb_seen = (vars s)\<lparr>shutdown_pending := True\<rparr>\<rparr>)
               (filter (\<lambda>r. type r = mqtt_notify_shutdown) (sub s)) @
             map (\<lambda>r. \<lparr>cb_fn = fn r, cb_user = user r,
                       cb_seen = (vars s)\<lparr>shutdown_pending := True\<rparr>\<rparr>)
               (filter (\<lambda>r. type r = mqtt_notify_shutdown) (sub s))"
    by (simp add: message_shutdown [OF zero] message_shutdown [OF one] notify_calls
        callbacks_of_def)
qed

text \<open>Below \<open>2\<^sup>3\<^sup>2\<close> the number \<^verbatim>\<open>strtoul\<close> returns fits \<^verbatim>\<open>n\<close>, and the flag is the
  truthiness of that number. This covers every payload where \<^verbatim>\<open>unsigned long\<close> has 32
  bits.\<close>

lemma unsigned_truthiness:
  assumes "v < 4294967296"
  shows "((of_nat v :: 32 word) \<noteq> 0) = (v \<noteq> 0)"
proof -
  have "((4294967296 :: nat) dvd v) = (v = 0)"
    using assms by (auto dest: dvd_imp_le)
  then show ?thesis by (simp add: word_of_nat_eq_0_iff)
qed

lemma ULONG_MAX_ILP32_fits: "strtoul (ULONG_MAX ILP32) nptr = (v, rest) \<Longrightarrow> v < 4294967296"
  by (auto simp add: strtoul_def Let_def split: prod.splits if_splits)

lemma shutdown_parsed_small:
  assumes "strtoul (ULONG_MAX (abi e)) (cstr payload) = (v, rest)"
    and "rest = [] \<or> (\<exists>r. rest = CHR '' '' # r)"
    and "v < 4294967296"
  shows "message e MQTT_TOPIC_SHUTDOWN payload s =
           Some (notify mqtt_notify_shutdown
                   (s\<lparr>vars := (vars s)\<lparr>shutdown_pending := (v \<noteq> 0)\<rparr>\<rparr>))"
  using shutdown_parsed [of e payload v rest s] assms
  by (simp add: unsigned_truthiness)

text \<open>
  C3 at the payload \<^verbatim>\<open>4294967296\<close>, where \<^verbatim>\<open>unsigned long\<close> has 64 bits, delivered
  after the payload \<^verbatim>\<open>1\<close> with one shutdown callback registered. \<^verbatim>\<open>strtoul\<close> converts the
  whole payload to the number \<open>2\<^sup>3\<^sup>2\<close>, which is not zero; the assignment to the 32-bit
  \<^verbatim>\<open>n\<close> leaves 0, so \<^verbatim>\<open>shutdown_pending\<close>, set by the first message, is cleared, and the
  callback sees it false.
\<close>

theorem C3_shutdown_truncated:
  "strtoul (ULONG_MAX (abi example_env)) (cstr ''4294967296'') = (4294967296, [])
   \<and> run example_env [Message MQTT_TOPIC_SHUTDOWN ''1'', Message MQTT_TOPIC_SHUTDOWN ''4294967296'']
        (mqtt_subscribe mqtt_notify_shutdown 1 10 init_state) =
      Some ((mqtt_subscribe mqtt_notify_shutdown 1 10 init_state)
              \<lparr>vars := init_session\<lparr>shutdown_pending := False\<rparr>,
               calls := [\<lparr>cb_fn = 1, cb_user = 10, cb_seen = init_session\<lparr>shutdown_pending := True\<rparr>\<rparr>,
                         \<lparr>cb_fn = 1, cb_user = 10, cb_seen = init_session\<lparr>shutdown_pending := False\<rparr>\<rparr>]\<rparr>)"
proof -
  have one: "strtoul (ULONG_MAX (abi example_env)) (cstr ''1'') = (1, [])"
    by (simp add: strtoul_eval example_env_def cstr_def)
  have big: "strtoul (ULONG_MAX (abi example_env)) (cstr ''4294967296'') = (4294967296, [])"
    by (simp add: strtoul_eval example_env_def cstr_def)
  show ?thesis
    by (simp add: big message_shutdown [OF one] message_shutdown [OF big] notify_calls
        callbacks_of_def)
      (simp add: mqtt_subscribe_def init_state_def init_session_def)
qed

subsection \<open>Payloads without a digit\<close>

lemma not_isdigit_digit_in: "\<not> isdigit c \<Longrightarrow> digit_in 10 c = None"
  by (auto simp add: isdigit_def digit_in_def digit_val_def Let_def)

lemma not_isdigit_zero: "\<not> isdigit c \<Longrightarrow> c \<noteq> CHR ''0''"
  by (auto simp add: isdigit_def)

lemma nul_not_digit: "digit_in 10 (CHR 0x00) = None"
  by (simp add: digit_in_def digit_val_def)

lemma scan_sign_subset: "set (snd (scan_sign str)) \<subseteq> set str"
  using scan_sign_suffix [of str] set_mono_suffix by blast

lemma isdigit_zero: "isdigit (CHR ''0'')"
  by (simp add: isdigit_def)

lemma scan_base_no_digit:
  assumes "\<forall>c\<in>set str. \<not> isdigit c"
  shows "scan_base str = (10, str)"
  using assms isdigit_zero by (cases str rule: scan_base.cases) auto

lemma strtoul_no_digit:
  assumes "\<forall>c\<in>set nptr. \<not> isdigit c"
  shows "strtoul m nptr = (0, nptr)"
proof -
  obtain neg s2 where sign: "scan_sign (dropWhile isspace nptr) = (neg, s2)" by force
  have "set s2 \<subseteq> set (dropWhile isspace nptr)"
    using scan_sign_subset [of "dropWhile isspace nptr"] sign by simp
  also have "\<dots> \<subseteq> set nptr"
    using set_mono_suffix [OF suffix_dropWhile] .
  finally have none: "\<forall>c\<in>set s2. \<not> isdigit c" using assms by blast
  then have base: "scan_base s2 = (10, s2)" by (rule scan_base_no_digit)
  have "digit_in 10 (deref s2) = None"
    using none by (cases s2) (simp_all add: nul_not_digit not_isdigit_digit_in)
  then show ?thesis by (simp add: strtoul_def sign base)
qed

lemma no_digit_cstr: "\<forall>c\<in>set payload. \<not> isdigit c \<Longrightarrow> \<forall>c\<in>set (cstr payload). \<not> isdigit c"
  unfolding cstr_def by (meson set_takeWhileD)

text \<open>
  C6, as the code has it. An empty payload parses as 0 and is processed: on the shutdown
  topic the flag is cleared and the notification dispatched, on the epoch topic
  \<^verbatim>\<open>process_epoch\<close> runs with epoch 0 and no names. A payload without any decimal digit
  converts nothing, so \<^verbatim>\<open>end\<close> is the start of the string. If that string (the payload
  up to its first zero byte) is not empty and does not begin with a space, the message is
  dropped with a \<^verbatim>\<open>bad number\<close> line and no other change. If it is empty or begins with
  a space, the payload is processed as the number 0.
\<close>

theorem C6_no_digits:
  "message e MQTT_TOPIC_SHUTDOWN [] s =
       Some (notify mqtt_notify_shutdown (s\<lparr>vars := (vars s)\<lparr>shutdown_pending := False\<rparr>\<rparr>))
   \<and> message e MQTT_TOPIC_EPOCH [] s = Some (process_epoch e 0 None s)
   \<and> ((\<forall>c\<in>set payload. \<not> isdigit c) \<and> (topic = MQTT_TOPIC_EPOCH \<or> topic = MQTT_TOPIC_SHUTDOWN)
        \<and> cstr payload \<noteq> [] \<and> hd (cstr payload) \<noteq> CHR '' '' \<longrightarrow>
        message e topic payload s = Some (s\<lparr>stderr := stderr s @ [Bad_number (cstr payload)]\<rparr>))
   \<and> ((\<forall>c\<in>set payload. \<not> isdigit c) \<and> (cstr payload = [] \<or> hd (cstr payload) = CHR '' '') \<longrightarrow>
        message e MQTT_TOPIC_SHUTDOWN payload s =
          Some (notify mqtt_notify_shutdown (s\<lparr>vars := (vars s)\<lparr>shutdown_pending := False\<rparr>\<rparr>))
        \<and> message e MQTT_TOPIC_EPOCH payload s =
          Some (process_epoch e 0
                  (if cstr payload = [] then None else Some (tl (cstr payload))) s))"
proof -
  have parse: "strtoul (ULONG_MAX (abi e)) (cstr p) = (0, cstr p)"
    if "\<forall>c\<in>set p. \<not> isdigit c" for p
    using that by (intro strtoul_no_digit no_digit_cstr)
  have empty: "strtoul (ULONG_MAX (abi e)) (cstr []) = (0, cstr [])"
    by (rule parse) simp
  have a: "message e MQTT_TOPIC_SHUTDOWN [] s =
       Some (notify mqtt_notify_shutdown (s\<lparr>vars := (vars s)\<lparr>shutdown_pending := False\<rparr>\<rparr>))"
    by (simp add: message_shutdown [OF empty] cstr_def)
  have b: "message e MQTT_TOPIC_EPOCH [] s = Some (process_epoch e 0 None s)"
    by (simp add: message_epoch [OF empty] cstr_def)
  have c: "message e topic payload s = Some (s\<lparr>stderr := stderr s @ [Bad_number (cstr payload)]\<rparr>)"
    if "\<forall>c\<in>set payload. \<not> isdigit c" "topic = MQTT_TOPIC_EPOCH \<or> topic = MQTT_TOPIC_SHUTDOWN"
      "cstr payload \<noteq> []" "hd (cstr payload) \<noteq> CHR '' ''"
    using that(2-4)
    by (cases "cstr payload")
      (auto simp add: message_epoch [OF parse [OF that(1)]] message_shutdown [OF parse [OF that(1)]]
        fprintf_stderr_def)
  have d: "message e MQTT_TOPIC_SHUTDOWN payload s =
          Some (notify mqtt_notify_shutdown (s\<lparr>vars := (vars s)\<lparr>shutdown_pending := False\<rparr>\<rparr>))
        \<and> message e MQTT_TOPIC_EPOCH payload s =
          Some (process_epoch e 0
                  (if cstr payload = [] then None else Some (tl (cstr payload))) s)"
    if "\<forall>c\<in>set payload. \<not> isdigit c" "cstr payload = [] \<or> hd (cstr payload) = CHR '' ''"
    using that(2)
    by (cases "cstr payload")
      (auto simp add: message_epoch [OF parse [OF that(1)]] message_shutdown [OF parse [OF that(1)]])
  from a b c d show ?thesis by blast
qed

theorem C6_no_digits_witness:
  "list_all (\<lambda>c. \<not> isdigit c) ''abc''
   \<and> message example_env MQTT_TOPIC_SHUTDOWN ''abc'' init_state =
       Some (init_state\<lparr>stderr := [Bad_number ''abc'']\<rparr>)
   \<and> list_all (\<lambda>c. \<not> isdigit c) '' a etchash''
   \<and> message example_env MQTT_TOPIC_EPOCH '' a etchash'' init_state =
       Some (process_epoch example_env 0 (Some ''a etchash'') init_state)
   \<and> message example_env MQTT_TOPIC_EPOCH [] init_state =
       Some (process_epoch example_env 0 None init_state)"
proof -
  have n1: "\<forall>c\<in>set ''abc''. \<not> isdigit c" by (simp add: isdigit_def)
  have n2: "\<forall>c\<in>set '' a etchash''. \<not> isdigit c" by (simp add: isdigit_def)
  have c1: "cstr ''abc'' = ''abc''" and c2: "cstr '' a etchash'' = '' a etchash''"
    by (simp_all add: cstr_def)
  show ?thesis
    using n1 n2
      C6_no_digits [of example_env init_state "''abc''" MQTT_TOPIC_SHUTDOWN]
      C6_no_digits [of example_env init_state "'' a etchash''" MQTT_TOPIC_EPOCH]
    by (simp add: c1 c2 init_state_def)
qed

text \<open>
  C6 as stated fails: the payload of one space holds no digit, and on the shutdown topic
  it is not dropped; it clears \<^verbatim>\<open>shutdown_pending\<close> and the callback is called.
\<close>

theorem C6_counterexample:
  "\<not> isdigit (CHR '' '')
   \<and> message example_env MQTT_TOPIC_SHUTDOWN '' ''
        (mqtt_subscribe mqtt_notify_shutdown 1 10
           (init_state\<lparr>vars := init_session\<lparr>shutdown_pending := True\<rparr>\<rparr>)) =
      Some ((mqtt_subscribe mqtt_notify_shutdown 1 10 init_state)
              \<lparr>vars := init_session\<lparr>shutdown_pending := False\<rparr>,
               calls := [\<lparr>cb_fn = 1, cb_user = 10,
                          cb_seen = init_session\<lparr>shutdown_pending := False\<rparr>\<rparr>]\<rparr>)"
proof -
  have p: "strtoul (ULONG_MAX (abi example_env)) (cstr '' '') = (0, '' '')"
    by (simp add: strtoul_eval example_env_def cstr_def)
  show ?thesis
    by (simp add: message_shutdown [OF p] notify_calls callbacks_of_def mqtt_subscribe_def
        init_state_def init_session_def isdigit_def)
qed


subsection \<open>The current algorithm\<close>

lemma strchr_SomeD:
  "strchr xs c = Some r \<Longrightarrow> \<exists>f t. xs = f @ c # t \<and> c \<notin> set f \<and> r = c # t"
proof (induction xs)
  case Nil
  then show ?case by simp
next
  case (Cons x xs)
  show ?case
  proof (cases "x = c")
    case True
    with Cons.prems have "x # xs = [] @ c # xs \<and> c \<notin> set [] \<and> r = c # xs" by simp
    then show ?thesis by blast
  next
    case False
    with Cons.prems have "strchr xs c = Some r" by simp
    then obtain f t where "xs = f @ c # t" "c \<notin> set f" "r = c # t"
      using Cons.IH by blast
    with False have "x # xs = (x # f) @ c # t \<and> c \<notin> set (x # f) \<and> r = c # t" by simp
    then show ?thesis by blast
  qed
qed

lemma process_epoch_decoded_iff:
  "(stderr (process_epoch e n (Some names) s) = stderr s) =
     (\<exists>field name. names = field @ CHR '' '' # name \<and> CHR '' '' \<notin> set field
        \<and> 0 \<le> dagalgo_code e name)"
proof (cases "strchr names (CHR '' '')")
  case None
  then have "stderr (process_epoch e n (Some names) s) \<noteq> stderr s"
    by (simp add: process_epoch_def fprintf_stderr_fields)
  moreover have "\<not> (\<exists>field name. names = field @ CHR '' '' # name \<and> CHR '' '' \<notin> set field
        \<and> 0 \<le> dagalgo_code e name)"
    using None strchr_first by fastforce
  ultimately show ?thesis by blast
next
  case (Some r)
  then obtain f t where split: "names = f @ CHR '' '' # t" "CHR '' '' \<notin> set f"
    using strchr_SomeD by blast
  have unique: "name = t"
    if "names = field @ CHR '' '' # name" "CHR '' '' \<notin> set field" for field name
    using that split strchr_first [of "CHR '' ''" field name] strchr_first [of "CHR '' ''" f t]
    by simp
  show ?thesis
  proof (cases "dagalgo_code e t < 0")
    case True
    then have "stderr (process_epoch e n (Some names) s) \<noteq> stderr s"
      using split by (simp add: process_epoch_named fprintf_stderr_fields)
    moreover have "\<not> (\<exists>field name. names = field @ CHR '' '' # name \<and> CHR '' '' \<notin> set field
        \<and> 0 \<le> dagalgo_code e name)"
      using unique True by fastforce
    ultimately show ?thesis by blast
  next
    case False
    then have "stderr (process_epoch e n (Some names) s) = stderr s"
      using split by (simp add: process_epoch_named notify_fields)
    moreover have "\<exists>field name. names = field @ CHR '' '' # name \<and> CHR '' '' \<notin> set field
        \<and> 0 \<le> dagalgo_code e name"
      using split False by fastforce
    ultimately show ?thesis by blast
  qed
qed

text \<open>On the epoch topic, \<^verbatim>\<open>message\<close> writes no diagnostic line exactly when the number
  is followed by nothing, or by a space, a field, a space and a name that the lookup
  resolves.\<close>

lemma epoch_decoded_iff:
  assumes "strtoul (ULONG_MAX (abi e)) (cstr payload) = (v, rest)"
    and "message e MQTT_TOPIC_EPOCH payload s = Some s'"
  shows "(stderr s' = stderr s) =
     (rest = [] \<or>
      (\<exists>field name. rest = CHR '' '' # field @ CHR '' '' # name \<and> CHR '' '' \<notin> set field
         \<and> 0 \<le> dagalgo_code e name))"
proof (cases rest)
  case Nil
  with assms(2) show ?thesis
    by (auto simp add: message_epoch [OF assms(1)] process_epoch_no_names notify_fields)
next
  case (Cons c r)
  show ?thesis
  proof (cases "c = CHR '' ''")
    case True
    with Cons assms(2) have "s' = process_epoch e (of_nat v) (Some r) s"
      by (simp add: message_epoch [OF assms(1)])
    with True Cons show ?thesis
      by (simp add: process_epoch_decoded_iff)
  next
    case False
    with Cons assms(2) show ?thesis
      by (auto simp add: message_epoch [OF assms(1)] fprintf_stderr_fields)
  qed
qed

lemma process_epoch_outcome:
  assumes "da_ethash e \<noteq> - 1"
  shows "(\<exists>d. process_epoch e n names s = fprintf_stderr d s)
       \<or> (stderr (process_epoch e n names s) = stderr s
           \<and> curr_algo (vars (process_epoch e n names s)) \<noteq> - 1)"
  using assms
  by (auto simp add: process_epoch_def notify_fields Let_def split: option.splits)

lemma message_returns: "\<exists>s'. message e topic payload s = Some s'"
proof (cases "topic_type topic")
  case None
  then show ?thesis by (simp add: message_def)
next
  case (Some ty)
  then show ?thesis
    by (cases ty) (auto simp add: message_def Let_def split: prod.splits)
qed

lemma message_other_topic:
  assumes "topic \<noteq> MQTT_TOPIC_EPOCH" and "message e topic payload s = Some s'"
  shows "curr_algo (vars s') = curr_algo (vars s)"
proof (cases "topic_type topic")
  case None
  with assms(2) show ?thesis by (auto simp add: message_def fprintf_stderr_fields)
next
  case (Some ty)
  with assms(1) have ty: "ty \<noteq> mqtt_notify_epoch"
    by (auto simp add: topic_type_def split: if_splits)
  with Some assms(2) show ?thesis
    by (cases ty)
      (auto simp add: message_def Let_def notify_fields debug_def fprintf_stderr_fields
        split: prod.splits if_splits)
qed

lemma message_epoch_outcome:
  assumes "da_ethash e \<noteq> - 1" and "message e MQTT_TOPIC_EPOCH payload s = Some s'"
  shows "(\<exists>d. s' = fprintf_stderr d s) \<or> (stderr s' = stderr s \<and> curr_algo (vars s') \<noteq> - 1)"
proof -
  obtain v rest where p: "strtoul (ULONG_MAX (abi e)) (cstr payload) = (v, rest)" by force
  show ?thesis
    using assms(2) process_epoch_outcome [OF assms(1), of "of_nat v" None s]
      process_epoch_outcome [OF assms(1), of "of_nat v" "Some (tl rest)" s]
    by (cases rest) (auto simp add: message_epoch [OF p] split: if_splits)
qed

lemma message_algo_change:
  assumes "da_ethash e \<noteq> - 1" and "message e topic payload s = Some s'"
    and "curr_algo (vars s') \<noteq> curr_algo (vars s)"
  shows "topic = MQTT_TOPIC_EPOCH \<and> stderr s' = stderr s \<and> curr_algo (vars s') \<noteq> - 1"
proof -
  have topic: "topic = MQTT_TOPIC_EPOCH"
    using assms(2,3) message_other_topic by blast
  with assms(2) have "message e MQTT_TOPIC_EPOCH payload s = Some s'" by simp
  from message_epoch_outcome [OF assms(1) this] assms(3) topic show ?thesis
    by (auto simp add: fprintf_stderr_fields)
qed

lemma step_returns: "\<exists>s'. step e x s = Some s'"
  by (cases x) (simp_all add: message_returns)

lemma run_returns: "\<exists>s'. run e xs s = Some s'"
proof (induction xs arbitrary: s)
  case Nil
  show ?case by simp
next
  case (Cons x xs)
  obtain s1 where "step e x s = Some s1" using step_returns by blast
  with Cons.IH [of s1] show ?case by simp
qed

lemma step_algo_change:
  assumes "da_ethash e \<noteq> - 1" and "step e x s = Some s'"
    and "curr_algo (vars s') \<noteq> curr_algo (vars s)"
  shows "(\<exists>p. x = Message MQTT_TOPIC_EPOCH p) \<and> stderr s' = stderr s
       \<and> curr_algo (vars s') \<noteq> - 1"
proof (cases x)
  case (Message topic payload)
  with assms message_algo_change [of e topic payload s s'] show ?thesis by auto
next
  case (Subscribe t f u)
  with assms show ?thesis by (auto simp add: mqtt_subscribe_def)
next
  case (Status t res h m flush)
  with assms show ?thesis
    by (auto simp add: mqtt_status_def publish_and_report_fields split: if_splits)
qed

lemma step_keeps_algo_set:
  assumes "da_ethash e \<noteq> - 1" and "step e x s = Some s'" and "curr_algo (vars s) \<noteq> - 1"
  shows "curr_algo (vars s') \<noteq> - 1"
  using step_algo_change [OF assms(1,2)] assms(3)
  by (cases "curr_algo (vars s') = curr_algo (vars s)") auto

lemma run_keeps_algo_set:
  assumes "da_ethash e \<noteq> - 1"
  shows "run e xs s = Some s' \<Longrightarrow> curr_algo (vars s) \<noteq> - 1 \<Longrightarrow> curr_algo (vars s') \<noteq> - 1"
proof (induction xs arbitrary: s)
  case Nil
  then show ?case by simp
next
  case (Cons x xs)
  obtain s1 where s1: "step e x s = Some s1" using step_returns by blast
  with Cons.prems have "run e xs s1 = Some s'" by simp
  moreover have "curr_algo (vars s1) \<noteq> - 1"
    using step_keeps_algo_set [OF assms s1] Cons.prems(2) .
  ultimately show ?case by (rule Cons.IH)
qed

text \<open>
  C9. Provided \<^verbatim>\<open>da_ethash\<close>, the constant of the absent header, is not the unset
  value \<open>-1\<close>. An epoch message is decoded successfully when \<^verbatim>\<open>message\<close> writes no
  diagnostic line, each of its failure paths writing one (\<open>epoch_decoded_iff\<close> says
  which payloads these are). After such a message, every
  run \<open>xs\<close> of further operations (messages on any topic, \<^verbatim>\<open>mqtt_subscribe\<close>,
  \<^verbatim>\<open>mqtt_status\<close>) returns, and leaves \<^verbatim>\<open>curr_algo\<close> different from \<open>-1\<close>. And in any
  state, an operation that changes \<^verbatim>\<open>curr_algo\<close> is a successfully decoded epoch
  message; the new value is the code it resolved, which then differs from the value
  before.
\<close>

theorem C9_algorithm_stays_set:
  assumes "da_ethash e \<noteq> - 1"
  shows "(message e MQTT_TOPIC_EPOCH payload s = Some s1 \<and> stderr s1 = stderr s \<longrightarrow>
            (\<exists>s2. run e xs s1 = Some s2 \<and> curr_algo (vars s2) \<noteq> - 1))
       \<and> (step e x s = Some s' \<and> curr_algo (vars s') \<noteq> curr_algo (vars s) \<longrightarrow>
            (\<exists>p. x = Message MQTT_TOPIC_EPOCH p) \<and> stderr s' = stderr s
            \<and> curr_algo (vars s') \<noteq> - 1)"
proof (rule conjI; rule impI)
  assume first: "message e MQTT_TOPIC_EPOCH payload s = Some s1 \<and> stderr s1 = stderr s"
  then have set1: "curr_algo (vars s1) \<noteq> - 1"
    using message_epoch_outcome [OF assms, of payload s s1] by (auto simp add: fprintf_stderr_fields)
  obtain s2 where s2: "run e xs s1 = Some s2" using run_returns by blast
  have "curr_algo (vars s2) \<noteq> - 1" using run_keeps_algo_set [OF assms s2 set1] .
  with s2 show "\<exists>s2. run e xs s1 = Some s2 \<and> curr_algo (vars s2) \<noteq> - 1"
    by auto
next
  assume "step e x s = Some s' \<and> curr_algo (vars s') \<noteq> curr_algo (vars s)"
  then show "(\<exists>p. x = Message MQTT_TOPIC_EPOCH p) \<and> stderr s' = stderr s
       \<and> curr_algo (vars s') \<noteq> - 1"
    using step_algo_change [OF assms] by blast
qed

theorem C9_algorithm_stays_set_witness:
  "da_ethash example_env \<noteq> - 1
   \<and> message example_env MQTT_TOPIC_EPOCH ''7 x etchash'' init_state =
       Some (init_state\<lparr>vars := init_session\<lparr>curr_algo := 1, curr_epoch := 7\<rparr>\<rparr>)
   \<and> (\<exists>s2. run example_env
               [Message MQTT_TOPIC_SHUTDOWN ''1'', Subscribe mqtt_notify_epoch 1 10,
                Message MQTT_TOPIC_EPOCH ''8 x nosuch'', Status 5 0 1 ''a'' False]
               (init_state\<lparr>vars := init_session\<lparr>curr_algo := 1, curr_epoch := 7\<rparr>\<rparr>) = Some s2
         \<and> curr_algo (vars s2) \<noteq> - 1)
   \<and> step example_env (Message MQTT_TOPIC_EPOCH ''7 x etchash'') init_state =
       Some (init_state\<lparr>vars := init_session\<lparr>curr_algo := 1, curr_epoch := 7\<rparr>\<rparr>)
   \<and> curr_algo (vars init_state) = - 1"
proof -
  have e: "da_ethash example_env \<noteq> - 1" by (simp add: example_env_def)
  have p: "strtoul (ULONG_MAX (abi example_env)) (cstr ''7 x etchash'') = (7, '' x etchash'')"
    by (simp add: strtoul_eval example_env_def cstr_def)
  have m: "message example_env MQTT_TOPIC_EPOCH ''7 x etchash'' init_state =
       Some (init_state\<lparr>vars := init_session\<lparr>curr_algo := 1, curr_epoch := 7\<rparr>\<rparr>)"
    using process_epoch_named [of "''x''" example_env 7 "''etchash''" init_state]
    by (simp add: message_epoch [OF p] notify_calls callbacks_of_def)
      (simp add: example_env_def init_state_def init_session_def)
  have st: "stderr (init_state\<lparr>vars := init_session\<lparr>curr_algo := 1, curr_epoch := 7\<rparr>\<rparr>) = stderr init_state"
    by simp
  have i: "curr_algo (vars init_state) = - 1" by (simp add: init_state_def init_session_def)
  show ?thesis
    using C9_algorithm_stays_set [OF e, where payload = "''7 x etchash''" and s = init_state
        and ?s1.0 = "init_state\<lparr>vars := init_session\<lparr>curr_algo := 1, curr_epoch := 7\<rparr>\<rparr>"
        and xs = "[Message MQTT_TOPIC_SHUTDOWN ''1'', Subscribe mqtt_notify_epoch 1 10,
                Message MQTT_TOPIC_EPOCH ''8 x nosuch'', Status 5 0 1 ''a'' False]"
        and x = "Message MQTT_TOPIC_EPOCH ''7 x etchash''"
        and s' = "init_state\<lparr>vars := init_session\<lparr>curr_algo := 1, curr_epoch := 7\<rparr>\<rparr>"]
    by (simp only: e m st i step.simps simp_thms)
qed

subsection \<open>A repeated epoch message\<close>

lemma small_epoch_roundtrip:
  assumes "v < 65536"
  shows "(of_nat v :: 32 word) = ucast (ucast (of_nat v :: 32 word) :: 16 word)"
proof -
  have "unat (of_nat v :: 16 word) = v"
    using assms by (simp add: unat_of_nat)
  then have "(ucast (of_nat v :: 16 word) :: 32 word) = of_nat v"
    by (metis of_nat_unat)
  then show ?thesis by (simp add: ucast_of_nat_16)
qed

lemma process_epoch_repeat:
  assumes "n = ucast (ucast n :: 16 word)"
    and "stderr (process_epoch e n names s) = stderr s"
  shows "process_epoch e n names (process_epoch e n names s) = process_epoch e n names s"
  using assms
  by (auto simp add: process_epoch_def notify_fields fprintf_stderr_fields Let_def
      split: option.splits)

text \<open>Below 65536 the guard of \<^verbatim>\<open>process_epoch\<close> does suppress a repeat: a decoded epoch
  message delivered again changes nothing and calls nobody.\<close>

lemma message_epoch_repeat:
  assumes "strtoul (ULONG_MAX (abi e)) (cstr payload) = (v, rest)" and "v < 65536"
    and "message e MQTT_TOPIC_EPOCH payload s = Some s1" and "stderr s1 = stderr s"
  shows "message e MQTT_TOPIC_EPOCH payload s1 = Some s1"
proof -
  note small = small_epoch_roundtrip [OF assms(2)]
  show ?thesis
    using assms(3,4) process_epoch_repeat [OF small, of e None s]
      process_epoch_repeat [OF small, of e "Some (tl rest)" s]
    by (cases rest)
      (auto simp add: message_epoch [OF assms(1)] fprintf_stderr_fields split: if_splits)
qed

text \<open>
  C4 at the payload \<^verbatim>\<open>65536\<close>, delivered twice to the initial state with one epoch
  callback registered. The first delivery stores the low 16 bits of the number, 0, in
  \<^verbatim>\<open>curr_epoch\<close>. The second compares the whole number, 65536, with that 0, finds a
  difference, and dispatches again: the callback is called twice.
\<close>

theorem C4_repeated_epoch:
  "strtoul (ULONG_MAX (abi example_env)) (cstr ''65536'') = (65536, [])
   \<and> run example_env [Message MQTT_TOPIC_EPOCH ''65536'', Message MQTT_TOPIC_EPOCH ''65536'']
        (mqtt_subscribe mqtt_notify_epoch 1 10 init_state) =
      Some ((mqtt_subscribe mqtt_notify_epoch 1 10 init_state)
              \<lparr>vars := init_session\<lparr>curr_algo := 0, curr_epoch := 0\<rparr>,
               calls := [\<lparr>cb_fn = 1, cb_user = 10, cb_seen = init_session\<lparr>curr_algo := 0, curr_epoch := 0\<rparr>\<rparr>,
                         \<lparr>cb_fn = 1, cb_user = 10, cb_seen = init_session\<lparr>curr_algo := 0, curr_epoch := 0\<rparr>\<rparr>]\<rparr>)"
proof -
  have p: "strtoul (ULONG_MAX (abi example_env)) (cstr ''65536'') = (65536, [])"
    by (simp add: strtoul_eval example_env_def cstr_def)
  show ?thesis
    by (simp add: p message_epoch [OF p] process_epoch_no_names notify_calls callbacks_of_def)
      (simp add: example_env_def mqtt_subscribe_def init_state_def init_session_def)
qed

end
